theory Spec2Isabelle
  imports Complex_Main
begin

section \<open>Python values used by \<^verbatim>\<open>tomography/plotting.py\<close>\<close>

text \<open>
  The module \<^verbatim>\<open>plotting.py\<close> holds two classes, \<^verbatim>\<open>DataViewer\<close> and
  \<^verbatim>\<open>Tomographyplot\<close>. Both are event-driven: a constructor builds widgets and a figure,
  and handlers mutate the figure. Python integers are \<^typ>\<open>int\<close>, pointer coordinates
  (finite floats) are \<^typ>\<open>real\<close>, strings are \<^typ>\<open>string\<close>. Every exception the code
  can raise is a value of \<open>error\<close>.
\<close>

datatype error =
    RuntimeError string
  | IndexError
  | ValueError
  | AttributeError
  | TraitError

text \<open>
  A handler runs inside the event loop of the notebook: an exception ends the handler, and the
  mutations made before the raise stay. So a handler returns the exception, if any, together
  with the state it left behind.
\<close>

type_synonym 's outcome = "error option \<times> 's"

text \<open>
  Integer indexing of a Python list or of one axis of a numpy array of extent \<open>n\<close>: an index
  in \<open>[-n, n)\<close> is accepted, a negative one counts from the end, anything else raises
  \<^verbatim>\<open>IndexError\<close>.
\<close>

definition py_index :: "nat \<Rightarrow> int \<Rightarrow> error + nat" where
  "py_index n k =
     (if - int n \<le> k \<and> k < int n
      then Inr (nat (if k < 0 then k + int n else k))
      else Inl IndexError)"

definition list_getitem :: "'a list \<Rightarrow> int \<Rightarrow> error + 'a" where
  "list_getitem xs k =
     (case py_index (length xs) k of
        Inl e \<Rightarrow> Inl e
      | Inr i \<Rightarrow> Inr (xs ! i))"

text \<open>\<^verbatim>\<open>int(x)\<close> on a finite float truncates toward zero.\<close>

definition py_int :: "real \<Rightarrow> int" where
  "py_int x = (if 0 \<le> x then \<lfloor>x\<rfloor> else \<lceil>x\<rceil>)"

text \<open>\<^verbatim>\<open>range(a, b)\<close> as the list of its values.\<close>

definition py_range :: "int \<Rightarrow> int \<Rightarrow> int list" where
  "py_range a b = [a..b - 1]"

subsection \<open>Formatting integers\<close>

definition digit_char :: "nat \<Rightarrow> char" where
  "digit_char d = char_of (48 + d)"

fun dec_digits :: "nat \<Rightarrow> string" where
  "dec_digits n =
     (if n < 10 then [digit_char n] else dec_digits (n div 10) @ [digit_char (n mod 10)])"

declare dec_digits.simps [simp del]

text \<open>\<^verbatim>\<open>'{}'.format(n)\<close>: the decimal numeral, with a minus sign when negative.\<close>

definition py_str :: "int \<Rightarrow> string" where
  "py_str n = (if n < 0 then ''-'' else '''') @ dec_digits (nat \<bar>n\<bar>)"

text \<open>
  \<^verbatim>\<open>'{:03}'.format(n)\<close>: zero padding to width 3; the sign, if any, comes first and counts
  in the width.
\<close>

definition format_03 :: "int \<Rightarrow> string" where
  "format_03 n =
     (let sign = (if n < 0 then ''-'' else '''');
          ds = dec_digits (nat \<bar>n\<bar>)
      in sign @ replicate (3 - length sign - length ds) CHR ''0'' @ ds)"

text \<open>\<^verbatim>\<open>os.path.basename\<close> (POSIX): what follows the last slash.\<close>

definition basename :: "string \<Rightarrow> string" where
  "basename p = rev (takeWhile (\<lambda>c. c \<noteq> CHR ''/'') (rev p))"

section \<open>numpy arrays\<close>

text \<open>
  An array is its shape and its elements. The code never inspects an element, so the element
  type is a parameter. Elements outside the shape are never read by the functions below.
\<close>

record 'a ndarray3 =
  shape0 :: nat
  shape1 :: nat
  shape2 :: nat
  elem3 :: "nat \<Rightarrow> nat \<Rightarrow> nat \<Rightarrow> 'a"

record 'a ndarray2 =
  nrows :: nat
  ncols :: nat
  elem2 :: "nat \<Rightarrow> nat \<Rightarrow> 'a"

definition shape :: "'a ndarray3 \<Rightarrow> nat \<times> nat \<times> nat" where
  "shape a = (shape0 a, shape1 a, shape2 a)"

text \<open>\<^verbatim>\<open>a[:, :, k]\<close>: the slice at position \<open>k\<close> of the last axis, once the index is checked.\<close>

definition frame :: "'a ndarray3 \<Rightarrow> nat \<Rightarrow> 'a ndarray2" where
  "frame a k = \<lparr>nrows = shape0 a, ncols = shape1 a, elem2 = (\<lambda>i j. elem3 a i j k)\<rparr>"

definition getitem_frame :: "'a ndarray3 \<Rightarrow> int \<Rightarrow> error + 'a ndarray2" where
  "getitem_frame a k =
     (case py_index (shape2 a) k of
        Inl e \<Rightarrow> Inl e
      | Inr k' \<Rightarrow> Inr (frame a k'))"

text \<open>\<^verbatim>\<open>a[i, j, :]\<close>\<close>

definition getitem_profile :: "'a ndarray3 \<Rightarrow> int \<Rightarrow> int \<Rightarrow> error + 'a list" where
  "getitem_profile a i j =
     (case py_index (shape0 a) i of
        Inl e \<Rightarrow> Inl e
      | Inr i' \<Rightarrow>
          (case py_index (shape1 a) j of
             Inl e \<Rightarrow> Inl e
           | Inr j' \<Rightarrow> Inr (map (elem3 a i' j') [0..<shape2 a])))"

text \<open>\<^verbatim>\<open>a[i, :, :]\<close>\<close>

definition getitem_axis0 :: "'a ndarray3 \<Rightarrow> int \<Rightarrow> error + 'a ndarray2" where
  "getitem_axis0 a i =
     (case py_index (shape0 a) i of
        Inl e \<Rightarrow> Inl e
      | Inr i' \<Rightarrow> Inr \<lparr>nrows = shape1 a, ncols = shape2 a, elem2 = (\<lambda>j k. elem3 a i' j k)\<rparr>)"

text \<open>\<^verbatim>\<open>a[:, j, :]\<close>\<close>

definition getitem_axis1 :: "'a ndarray3 \<Rightarrow> int \<Rightarrow> error + 'a ndarray2" where
  "getitem_axis1 a j =
     (case py_index (shape1 a) j of
        Inl e \<Rightarrow> Inl e
      | Inr j' \<Rightarrow> Inr \<lparr>nrows = shape0 a, ncols = shape2 a, elem2 = (\<lambda>i k. elem3 a i j' k)\<rparr>)"

text \<open>\<^verbatim>\<open>np.flipud\<close> on a one-dimensional array reverses it.\<close>

definition flipud :: "'a list \<Rightarrow> 'a list" where
  "flipud xs = rev xs"

text \<open>
  \<^verbatim>\<open>np.rot90(m, 1)\<close>: a counterclockwise quarter turn; an \<open>r \<times> c\<close> array becomes
  \<open>c \<times> r\<close>, and entry \<open>(i, j)\<close> of the result is entry \<open>(j, c - 1 - i)\<close> of \<open>m\<close>.
\<close>

definition rot90 :: "'a ndarray2 \<Rightarrow> 'a ndarray2" where
  "rot90 m = \<lparr>nrows = ncols m, ncols = nrows m, elem2 = (\<lambda>i j. elem2 m j (ncols m - 1 - i))\<rparr>"


section \<open>The plotting and widget libraries, as far as the module uses them\<close>

text \<open>
  matplotlib and ipywidgets are outside the repository. Their objects are modelled by the
  attributes the module sets or reads: an axes by its artists (lines, images, legend) and its
  texts, limits and ticks. The pixel transforms of \<^verbatim>\<open>DataViewer\<close> (log-magnitude with a
  percentile stretch, absolute value) are floating-point computations of the library; an
  image records which one was applied to which array and is otherwise uninterpreted.
\<close>

datatype transform = Identity | Absolute | LogAmplitudeStretched

record 'a image =
  img_data :: "'a ndarray2"
  img_transform :: transform
  img_cmap :: "string option"  \<comment> \<open>\<open>None\<close>: the library's default\<close>
  img_origin :: "string option"
  img_colorbar :: "string option"  \<comment> \<open>the axis label of the attached colorbar, if any\<close>

record 'a line2d =
  line_xdata :: "'a list"
  line_ydata :: "int list"
  line_label :: string

record 'a axes =
  ax_lines :: "'a line2d list"
  ax_images :: "'a image list"
  ax_legend :: "string list option"
  ax_title :: string
  ax_xlabel :: string
  ax_ylabel :: string
  ax_xlim :: "(int \<times> int) option"  \<comment> \<open>\<open>None\<close>: left to autoscaling\<close>
  ax_ylim :: "(int \<times> int) option"
  ax_yticks :: "real list option"
  ax_yticklabels :: "int list option"

text \<open>A new subplot (\<^verbatim>\<open>fig.add_subplot\<close>), which is also what \<^verbatim>\<open>cla()\<close> restores.\<close>

definition subplot :: "'a axes" where
  "subplot = \<lparr>ax_lines = [], ax_images = [], ax_legend = None, ax_title = [],
     ax_xlabel = [], ax_ylabel = [], ax_xlim = None, ax_ylim = None,
     ax_yticks = None, ax_yticklabels = None\<rparr>"

definition cla :: "'a axes \<Rightarrow> 'a axes" where
  "cla ax = subplot"

text \<open>
  \<^verbatim>\<open>ax.plot(x, y, label=l)\<close> appends one line; matplotlib raises \<^verbatim>\<open>ValueError\<close>
  (x and y must have same first dimension) when the two sequences differ in length.
\<close>

definition plot :: "'a axes \<Rightarrow> 'a list \<Rightarrow> int list \<Rightarrow> string \<Rightarrow> error + 'a axes" where
  "plot ax x y l =
     (if length x \<noteq> length y then Inl ValueError
      else Inr (ax\<lparr>ax_lines := ax_lines ax @ [\<lparr>line_xdata = x, line_ydata = y, line_label = l\<rparr>]\<rparr>))"

text \<open>\<^verbatim>\<open>ax.legend(...)\<close> rebuilds the legend from the labels of the lines now on the axes.\<close>

definition legend :: "'a axes \<Rightarrow> 'a axes" where
  "legend ax = ax\<lparr>ax_legend := Some (map line_label (ax_lines ax))\<rparr>"

text \<open>\<^verbatim>\<open>ax.imshow(...)\<close> appends an image to the axes; it removes nothing.\<close>

definition imshow ::
  "'a axes \<Rightarrow> 'a ndarray2 \<Rightarrow> transform \<Rightarrow> string option \<Rightarrow> string option \<Rightarrow> 'a axes" where
  "imshow ax m t cm orig =
     ax\<lparr>ax_images := ax_images ax @
        [\<lparr>img_data = m, img_transform = t, img_cmap = cm, img_origin = orig, img_colorbar = None\<rparr>]\<rparr>"

text \<open>
  \<^verbatim>\<open>fig.colorbar(p1, ax=...)\<close> followed by \<^verbatim>\<open>cbar.ax.set_ylabel(l)\<close>, where \<^verbatim>\<open>p1\<close> is the
  image \<^verbatim>\<open>imshow\<close> has just appended.
\<close>

definition colorbar :: "'a axes \<Rightarrow> string \<Rightarrow> 'a axes" where
  "colorbar ax l =
     ax\<lparr>ax_images := butlast (ax_images ax) @ [(last (ax_images ax))\<lparr>img_colorbar := Some l\<rparr>]\<rparr>"

text \<open>
  \<^verbatim>\<open>IntSlider(min=a, max=b, step=s)\<close>: the value defaults to 0 moved into \<open>[a, b]\<close>; a
  maximum below the minimum is refused.
\<close>

record slider =
  slider_min :: int
  slider_max :: int
  slider_step :: int
  slider_value :: int

definition IntSlider :: "int \<Rightarrow> int \<Rightarrow> int \<Rightarrow> error + slider" where
  "IntSlider a b s =
     (if b < a then Inl TraitError
      else Inr \<lparr>slider_min = a, slider_max = b, slider_step = s,
                slider_value = max a (min b 0)\<rparr>)"

text \<open>
  What a constructor creates or shows on screen, in the order of creation. The log makes
  the order of a failure and the creation of widgets a statement about a value.
\<close>

datatype gui_object =
    Widget_IntSlider slider
  | Widget_Checkbox bool string
  | Widget_Button string
  | Displayed_form
  | Displayed_slider
  | Figure

datatype axes_id = Ax1 | Ax2 | Ax3 | Ax4 | Colorbar_axes

text \<open>
  A \<^verbatim>\<open>button_press_event\<close>: the axes under the pointer, if any, and the data coordinates
  there (matplotlib gives coordinates only together with an axes).
\<close>

record mouse_event =
  inaxes :: "axes_id option"
  xdata :: real
  ydata :: real

section \<open>\<^verbatim>\<open>class DataViewer\<close>\<close>

record 'a DataViewer =
  slc_list :: "string list"
  phase_list :: "string list"
  kz_list :: "string list"
  slc_stack :: "'a ndarray3"
  phase_stack :: "'a ndarray3"
  kz_stack :: "'a ndarray3"
  dv_slider :: slider
  dv_ax1 :: "'a axes"
  dv_ax2 :: "'a axes"
  dv_ax3 :: "'a axes"

text \<open>Lines 76 to 78 of \<^verbatim>\<open>DataViewer.onslide\<close>: the three names that go into the titles.\<close>

definition resolve_names :: "'a DataViewer \<Rightarrow> int \<Rightarrow> error + string \<times> string \<times> string" where
  "resolve_names self h =
     (case list_getitem (slc_list self) h of
        Inl e \<Rightarrow> Inl e
      | Inr slc \<Rightarrow>
          (case list_getitem (phase_list self) (h - 1) of
             Inl e \<Rightarrow> Inl e
           | Inr phase \<Rightarrow>
               (case list_getitem (kz_list self) (h - 1) of
                  Inl e \<Rightarrow> Inl e
                | Inr kz \<Rightarrow> Inr (basename slc, basename phase, basename kz))))"

definition DataViewer_onslide :: "'a DataViewer \<Rightarrow> int \<Rightarrow> 'a DataViewer outcome" where
  "DataViewer_onslide self h =
     (case resolve_names self h of
        Inl e \<Rightarrow> (Some e, self)
      | Inr (slc_name, phase_name, kz_name) \<Rightarrow>
          (let self1 = self\<lparr>
                 dv_ax1 := (dv_ax1 self)\<lparr>ax_title := ''SLC intensity: '' @ slc_name\<rparr>,
                 dv_ax2 := (dv_ax2 self)\<lparr>ax_title := ''phase: '' @ phase_name\<rparr>,
                 dv_ax3 := (dv_ax3 self)\<lparr>ax_title := ''wavenumber: '' @ kz_name\<rparr>\<rparr>
           in case getitem_frame (slc_stack self1) h of
                Inl e \<Rightarrow> (Some e, self1)
              | Inr amp \<Rightarrow>
                  (let self2 = self1\<lparr>dv_ax1 :=
                         imshow (dv_ax1 self1) amp LogAmplitudeStretched (Some ''gray'') None\<rparr>
                   in case getitem_frame (phase_stack self2) h of
                        Inl e \<Rightarrow> (Some e, self2)
                      | Inr ph \<Rightarrow>
                          (let self3 = self2\<lparr>dv_ax2 :=
                                 imshow (dv_ax2 self2) ph Absolute None None\<rparr>
                           in case getitem_frame (kz_stack self3) h of
                                Inl e \<Rightarrow> (Some e, self3)
                              | Inr kz \<Rightarrow>
                                  (None, self3\<lparr>dv_ax3 :=
                                     imshow (dv_ax3 self3) kz Absolute None None\<rparr>)))))"

text \<open>
  \<^verbatim>\<open>DataViewer.__init__\<close>. \<^verbatim>\<open>interactive_output\<close> runs the handler once with the slider's
  value and shows an exception in its output area instead of raising it.
\<close>

definition DataViewer_init ::
  "gui_object list \<Rightarrow> string list \<Rightarrow> string list \<Rightarrow> string list \<Rightarrow>
   'a ndarray3 \<Rightarrow> 'a ndarray3 \<Rightarrow> 'a ndarray3 \<Rightarrow> gui_object list \<times> (error + 'a DataViewer)" where
  "DataViewer_init gui slcs phases kzs slc_st phase_st kz_st =
     (case IntSlider 1 (int (length slcs) - 1) 1 of
        Inl e \<Rightarrow> (gui, Inl e)
      | Inr sl \<Rightarrow>
          (let self = \<lparr>slc_list = slcs, phase_list = phases, kz_list = kzs,
                       slc_stack = slc_st, phase_stack = phase_st, kz_stack = kz_st,
                       dv_slider = sl, dv_ax1 = subplot, dv_ax2 = subplot, dv_ax3 = subplot\<rparr>
           in (gui @ [Widget_IntSlider sl, Displayed_slider, Figure],
               Inr (snd (DataViewer_onslide self (slider_value sl))))))"

section \<open>\<^verbatim>\<open>class Tomographyplot\<close>\<close>

text \<open>
  The two line objects of the cross-hair are their one coordinate each: \<open>lhor\<close> is the
  y-position of the horizontal line, \<open>lver\<close> the x-position of the vertical one.
  \<open>checkbox\<close> is the current value of the stacking checkbox.
\<close>

record 'a Tomographyplot =
  height :: int
  capon_bf_abs :: "'a ndarray3"
  caponnorm :: "'a ndarray3"
  slider :: slider
  checkbox :: bool
  ax1 :: "'a axes"
  ax2 :: "'a axes"
  ax3 :: "'a axes"
  ax4 :: "'a axes"
  lhor :: int
  lver :: int

definition reset_crosshair :: "'a Tomographyplot \<Rightarrow> int \<Rightarrow> int \<Rightarrow> 'a Tomographyplot" where
  "reset_crosshair self rng azimuth = self\<lparr>lhor := azimuth, lver := rng\<rparr>"

definition init_vertical_plot :: "'a Tomographyplot \<Rightarrow> 'a Tomographyplot" where
  "init_vertical_plot self =
     (let a = (if length (ax_lines (ax2 self)) > 0 then cla (ax2 self) else ax2 self)
      in self\<lparr>ax2 := a\<lparr>ax_ylabel := ''height [m]'',
                         ax_xlabel := ''reflectivity'',
                         ax_title := ''vertical point profiles'',
                         ax_ylim := Some (- height self, height self)\<rparr>\<rparr>)"

text \<open>
  \<^verbatim>\<open>Tomographyplot.onslide\<close>. The slice is taken first, so a failing index leaves the figure
  as it was. \<^verbatim>\<open>self.ax1.images[0].colorbar.remove()\<close> needs the oldest image to have a
  colorbar.
\<close>

definition Tomographyplot_onslide :: "'a Tomographyplot \<Rightarrow> int \<Rightarrow> 'a Tomographyplot outcome" where
  "Tomographyplot_onslide self h =
     (case getitem_frame (caponnorm self) (height self - h) of
        Inl e \<Rightarrow> (Some e, self)
      | Inr slice \<Rightarrow>
          (let a = (imshow (ax1 self) slice Identity (Some ''jet'') (Some ''upper''))
                     \<lparr>ax_xlabel := ''range'',
                      ax_ylabel := ''azimuth'',
                      ax_title := ''horizontal slice at height '' @ py_str h @ '' m''\<rparr>
           in if length (ax_images a) > 1 then
                (case img_colorbar (hd (ax_images a)) of
                   None \<Rightarrow> (Some AttributeError, self\<lparr>ax1 := a\<rparr>)
                 | Some cb \<Rightarrow>
                     (None, self\<lparr>ax1 :=
                        colorbar (a\<lparr>ax_images := tl (ax_images a)\<rparr>) ''reflectivity''\<rparr>))
              else (None, self\<lparr>ax1 := colorbar a ''reflectivity''\<rparr>)))"

text \<open>The label of a profile line: \<^verbatim>\<open>'rg: {0:03}; az: {1:03}'.format(rg, az)\<close>.\<close>

definition profile_label :: "int \<Rightarrow> int \<Rightarrow> string" where
  "profile_label rg az = ''rg: '' @ format_03 rg @ ''; az: '' @ format_03 az"

definition Tomographyplot_onclick ::
  "'a Tomographyplot \<Rightarrow> mouse_event \<Rightarrow> 'a Tomographyplot outcome" where
  "Tomographyplot_onclick self event =
     (if inaxes event = Some Ax1 then
        (let rg = py_int (xdata event);
             az = py_int (ydata event);
             self1 = reset_crosshair self rg az
         in case getitem_profile (capon_bf_abs self1) az rg of
              Inl e \<Rightarrow> (Some e, self1)
            | Inr subset_vertical \<Rightarrow>
         (case getitem_axis0 (caponnorm self1) az of
              Inl e \<Rightarrow> (Some e, self1)
            | Inr subset_range \<Rightarrow>
         (case getitem_axis1 (caponnorm self1) rg of
              Inl e \<Rightarrow> (Some e, self1)
            | Inr subset_azimuth \<Rightarrow>
         (let self2 = (if \<not> checkbox self1 then init_vertical_plot self1 else self1);
              label = profile_label rg az
          in case plot (ax2 self2) (flipud subset_vertical)
                    (py_range (- height self2) (height self2 + 1)) label of
               Inl e \<Rightarrow> (Some e, self2)
             | Inr a \<Rightarrow>
                 (None, self2\<lparr>
                    ax2 := legend a,
                    ax3 := (imshow (ax3 self2) (rot90 subset_range) Identity
                              (Some ''jet'') (Some ''lower''))
                           \<lparr>ax_title := ''range slice at azimuth line '' @ py_str az\<rparr>,
                    ax4 := (imshow (ax4 self2) (rot90 subset_azimuth) Identity
                              (Some ''jet'') (Some ''lower''))
                           \<lparr>ax_title := ''azimuth slice at range line '' @ py_str rg\<rparr>\<rparr>)))))
      else (None, self))"

text \<open>
  \<^verbatim>\<open>Tomographyplot.__init__\<close>. The shape test is the first statement. The tick labels use
  Python's floor division, and \<^verbatim>\<open>-self.height // 2\<close> is \<^verbatim>\<open>(-self.height) // 2\<close>; the tick
  positions use the true division of Python 3. As in \<^verbatim>\<open>DataViewer\<close>,
  \<^verbatim>\<open>interactive_output\<close> runs \<^verbatim>\<open>onslide\<close> once with the slider's value and keeps an
  exception to itself. The layout calls and the four \<^verbatim>\<open>format_coord\<close> callbacks only format
  what the cursor display shows; they set nothing a handler reads and are left out.
\<close>

definition ytick_lab :: "int \<Rightarrow> int list" where
  "ytick_lab H = [- H, (- H) div 2, 0, H div 2, H]"

definition ytick_pos :: "int \<Rightarrow> real list" where
  "ytick_pos H = [0, real_of_int H / 2, real_of_int H, real_of_int H + real_of_int H / 2,
                  real_of_int (H * 2)]"

definition Tomographyplot_init ::
  "gui_object list \<Rightarrow> 'a ndarray3 \<Rightarrow> 'a ndarray3 \<Rightarrow>
   gui_object list \<times> (error + 'a Tomographyplot)" where
  "Tomographyplot_init gui capon_bf_abs' caponnorm' =
     (if \<not> shape caponnorm' = shape capon_bf_abs' then
        (gui, Inl (RuntimeError ''mismatch of input arrays''))
      else
        (let H = int (shape2 capon_bf_abs' div 2)
         in case IntSlider (- H) H 10 of
              Inl e \<Rightarrow> (gui, Inl e)
            | Inr sl \<Rightarrow>
                (let self = \<lparr>height = H, capon_bf_abs = capon_bf_abs', caponnorm = caponnorm',
                             slider = sl, checkbox = True,
                             ax1 = subplot,
                             ax2 = subplot,
                             ax3 = subplot\<lparr>ax_xlim := Some (0, int (shape1 capon_bf_abs')),
                                           ax_yticks := Some (ytick_pos H),
                                           ax_yticklabels := Some (ytick_lab H)\<rparr>,
                             ax4 = subplot\<lparr>ax_xlim := Some (0, int (shape0 capon_bf_abs')),
                                           ax_yticks := Some (ytick_pos H),
                                           ax_yticklabels := Some (ytick_lab H)\<rparr>,
                             lhor = 0, lver = 0\<rparr>;
                     self1 = init_vertical_plot self
                 in (gui @ [Widget_IntSlider sl,
                            Widget_Checkbox True ''stack vertical profiles'',
                            Widget_Button ''clear vertical plot'',
                            Displayed_form, Figure],
                     Inr (snd (Tomographyplot_onslide self1 (slider_value sl)))))))"

text \<open>
  Ticking or unticking the checkbox is the widget's own business: it changes the value the
  handler reads and nothing else.
\<close>

definition set_checkbox :: "'a Tomographyplot \<Rightarrow> bool \<Rightarrow> 'a Tomographyplot" where
  "set_checkbox self v = self\<lparr>checkbox := v\<rparr>"

text \<open>A sequence of pointer presses, handled one after the other.\<close>

fun clicks :: "'a Tomographyplot \<Rightarrow> mouse_event list \<Rightarrow> 'a Tomographyplot" where
  "clicks self [] = self"
| "clicks self (ev # evs) = clicks (snd (Tomographyplot_onclick self ev)) evs"

text \<open>
  What the constructor establishes and every handler keeps: the two volumes have one shape,
  \<open>height\<close> is half the height extent and bounds the slider, every image of the horizontal-slice panel carries its
  colorbar, and the profile panel holds nothing but what \<open>init_vertical_plot\<close> and
  \<open>onclick\<close> put there.
\<close>

definition Tomographyplot_inv :: "'a Tomographyplot \<Rightarrow> bool" where
  "Tomographyplot_inv self \<longleftrightarrow>
     shape (caponnorm self) = shape (capon_bf_abs self) \<and>
     height self = int (shape2 (capon_bf_abs self) div 2) \<and>
     slider_min (slider self) = - height self \<and>
     slider_max (slider self) = height self \<and>
     list_all (\<lambda>im. img_colorbar im \<noteq> None) (ax_images (ax1 self)) \<and>
     ax_images (ax2 self) = [] \<and>
     ax_xlim (ax2 self) = None \<and>
     ax_yticks (ax2 self) = None \<and>
     ax_yticklabels (ax2 self) = None \<and>
     (if ax_lines (ax2 self) = [] then ax_legend (ax2 self) = None
      else ax_legend (ax2 self) = Some (map line_label (ax_lines (ax2 self))))"

section \<open>Notions used to state the properties\<close>

text \<open>The pixel a pointer press is converted to: \<open>(rg, az)\<close>.\<close>

definition pixel :: "mouse_event \<Rightarrow> int \<times> int" where
  "pixel ev = (py_int (xdata ev), py_int (ydata ev))"

text \<open>
  A press inside the horizontal-slice panel whose pixel numpy accepts as an index into the
  volume: \<open>rg\<close> on axis 1 and \<open>az\<close> on axis 0.
\<close>

definition on_volume :: "'a Tomographyplot \<Rightarrow> mouse_event \<Rightarrow> bool" where
  "on_volume self ev \<longleftrightarrow>
     inaxes ev = Some Ax1 \<and>
     - int (shape1 (capon_bf_abs self)) \<le> py_int (xdata ev) \<and>
     py_int (xdata ev) < int (shape1 (capon_bf_abs self)) \<and>
     - int (shape0 (capon_bf_abs self)) \<le> py_int (ydata ev) \<and>
     py_int (ydata ev) < int (shape0 (capon_bf_abs self))"

text \<open>The natural-number position a checked numpy index stands for.\<close>

definition position :: "nat \<Rightarrow> int \<Rightarrow> nat" where
  "position n k = nat (if k < 0 then k + int n else k)"

text \<open>
  The tick scheme in the specification's words: labels \<open>{-H, -H/2, 0, H/2, H}\<close> at pixel
  positions \<open>{0, H/2, H, 1.5H, 2H}\<close>. These two definitions follow the specification, not
  the code; the code's lists are \<open>ytick_lab\<close> and \<open>ytick_pos\<close>.
\<close>

definition spec_tick_labels :: "real \<Rightarrow> real list" where
  "spec_tick_labels H = [- H, - H / 2, 0, H / 2, H]"

definition spec_tick_positions :: "real \<Rightarrow> real list" where
  "spec_tick_positions H = [0, H / 2, H, 3 * H / 2, 2 * H]"

text \<open>A tick-label list that reads the same from both ends up to sign.\<close>

definition symmetric_labels :: "int list \<Rightarrow> bool" where
  "symmetric_labels ls \<longleftrightarrow> map uminus (rev ls) = ls"

text \<open>Reading a formatted integer back, to show that formatting loses nothing.\<close>

definition digits_value :: "string \<Rightarrow> nat" where
  "digits_value s = foldl (\<lambda>a c. 10 * a + (of_char c - 48)) 0 s"

definition parse_int :: "string \<Rightarrow> int" where
  "parse_int s =
     (case s of
        [] \<Rightarrow> 0
      | c # cs \<Rightarrow> if c = CHR ''-'' then - int (digits_value cs) else int (digits_value s))"

text \<open>What \<open>DataViewer_init\<close> establishes about the slider, and \<open>onslide\<close> keeps.\<close>

definition DataViewer_inv :: "'a DataViewer \<Rightarrow> bool" where
  "DataViewer_inv self \<longleftrightarrow>
     slider_min (dv_slider self) = 1 \<and>
     slider_max (dv_slider self) = int (length (slc_list self)) - 1"

subsection \<open>Concrete inputs\<close>

definition demo_volume :: "nat \<Rightarrow> nat \<Rightarrow> nat \<Rightarrow> nat ndarray3" where
  "demo_volume a r h =
     \<lparr>shape0 = a, shape1 = r, shape2 = h, elem3 = (\<lambda>i j k. 100 * i + 10 * j + k)\<rparr>"

text \<open>The component built from two copies of a \<open>2 \<times> 2 \<times> n\<close> volume.\<close>

definition demo_explorer :: "nat \<Rightarrow> nat Tomographyplot" where
  "demo_explorer n =
     projr (snd (Tomographyplot_init [] (demo_volume 2 2 n) (demo_volume 2 2 n)))"

definition press :: "axes_id option \<Rightarrow> real \<Rightarrow> real \<Rightarrow> mouse_event" where
  "press a x y = \<lparr>inaxes = a, xdata = x, ydata = y\<rparr>"

definition demo_viewer :: "nat DataViewer" where
  "demo_viewer =
     projr (snd (DataViewer_init []
       [''/data/slc_0.tif'', ''/data/slc_1.tif'', ''/data/slc_2.tif'']
       [''/data/phase_1.tif'', ''/data/phase_2.tif'']
       [''/data/kz_1.tif'', ''/data/kz_2.tif'']
       (demo_volume 2 2 3) (demo_volume 2 2 3) (demo_volume 2 2 3)))"

section \<open>Facts about the Python values\<close>

subsection \<open>Formatting is injective\<close>

lemma of_char_digit: "d < 10 \<Longrightarrow> of_char (digit_char d) = (48 + d :: nat)"
  by (simp add: digit_char_def)

lemma digit_char_neq: "d < 10 \<Longrightarrow> digit_char d \<noteq> CHR ''-'' \<and> digit_char d \<noteq> CHR '';''"
proof -
  assume d: "d < 10"
  have "of_char (digit_char d) \<noteq> (45::nat)" "of_char (digit_char d) \<noteq> (59::nat)"
    using d by (simp_all add: of_char_digit)
  then show ?thesis by auto
qed


lemma dec_digits_nonempty: "dec_digits n \<noteq> []"
  by (subst dec_digits.simps) simp

lemma dec_digits_chars: "c \<in> set (dec_digits n) \<Longrightarrow> \<exists>d<10. c = digit_char d"
proof (induction n rule: dec_digits.induct)
  case (1 n)
  show ?case
  proof (cases "n < 10")
    case True
    with "1.prems" show ?thesis by (subst (asm) dec_digits.simps) auto
  next
    case False
    with "1.prems" have "c \<in> set (dec_digits (n div 10)) \<or> c = digit_char (n mod 10)"
      by (subst (asm) dec_digits.simps) auto
    then show ?thesis
    proof
      assume "c \<in> set (dec_digits (n div 10))"
      with False "1.IH" show ?thesis by simp
    next
      assume "c = digit_char (n mod 10)"
      moreover have "n mod 10 < 10" by simp
      ultimately show ?thesis by blast
    qed
  qed
qed

lemma digits_value_snoc:
  "digits_value (s @ [c]) = 10 * digits_value s + (of_char c - 48)"
  by (simp add: digits_value_def)

lemma digits_value_dec_digits: "digits_value (dec_digits n) = n"
proof (induction n rule: dec_digits.induct)
  case (1 n)
  show ?case
  proof (cases "n < 10")
    case True
    then have "dec_digits n = [digit_char n]" by (subst dec_digits.simps) simp
    with True show ?thesis by (simp add: digits_value_def of_char_digit)
  next
    case False
    then have "dec_digits n = dec_digits (n div 10) @ [digit_char (n mod 10)]"
      by (subst dec_digits.simps) simp
    moreover have "digits_value (dec_digits (n div 10)) = n div 10"
      using False "1.IH" by simp
    ultimately show ?thesis
      by (simp add: digits_value_snoc of_char_digit)
  qed
qed

lemma foldl_zeros:
  "foldl (\<lambda>a c. 10 * a + (of_char c - 48)) (0::nat) (replicate k CHR ''0'' @ s) =
   foldl (\<lambda>a c. 10 * a + (of_char c - 48)) 0 s"
  by (induction k) simp_all

lemma digits_value_padded: "digits_value (replicate k CHR ''0'' @ s) = digits_value s"
  by (simp only: digits_value_def foldl_zeros)

lemma hd_padded_not_minus: "hd (replicate k CHR ''0'' @ dec_digits n) \<noteq> CHR ''-''"
proof (cases k)
  case 0
  have "hd (dec_digits n) \<in> set (dec_digits n)" by (simp add: dec_digits_nonempty)
  then obtain d where "d < 10" "hd (dec_digits n) = digit_char d"
    using dec_digits_chars by blast
  with 0 show ?thesis by (simp add: digit_char_neq)
next
  case (Suc j)
  then show ?thesis by simp
qed

lemma parse_int_format_03: "parse_int (format_03 n) = n"
proof (cases "n < 0")
  case True
  then show ?thesis
    by (simp add: format_03_def parse_int_def Let_def digits_value_padded digits_value_dec_digits)
next
  case False
  let ?s = "replicate (3 - length (dec_digits (nat \<bar>n\<bar>))) CHR ''0'' @ dec_digits (nat \<bar>n\<bar>)"
  from False have f: "format_03 n = ?s" by (simp add: format_03_def Let_def)
  have ne: "?s \<noteq> []" by (simp add: dec_digits_nonempty)
  then obtain c cs where s: "?s = c # cs" by (cases ?s) auto
  have "hd ?s \<noteq> CHR ''-''" by (rule hd_padded_not_minus)
  with s have "c \<noteq> CHR ''-''" by simp
  then have "parse_int ?s = int (digits_value ?s)"
    using s by (simp add: parse_int_def)
  with False show ?thesis
    by (simp add: f digits_value_padded digits_value_dec_digits)
qed

lemma format_03_inj: "format_03 m = format_03 n \<Longrightarrow> m = n"
  by (metis parse_int_format_03)

lemma format_03_no_semicolon: "c \<in> set (format_03 n) \<Longrightarrow> c \<noteq> CHR '';''"
proof -
  assume "c \<in> set (format_03 n)"
  then have "c = CHR ''-'' \<or> c = CHR ''0'' \<or> c \<in> set (dec_digits (nat \<bar>n\<bar>))"
    by (auto simp add: format_03_def Let_def split: if_splits)
  then show ?thesis
  proof (elim disjE)
    assume "c \<in> set (dec_digits (nat \<bar>n\<bar>))"
    then obtain d where "d < 10" "c = digit_char d"
      using dec_digits_chars by blast
    then show ?thesis by (simp add: digit_char_neq)
  qed simp_all
qed

lemma takeWhile_format_03:
  "takeWhile (\<lambda>c. c \<noteq> CHR '';'') (format_03 n @ CHR '';'' # s) = format_03 n"
  using format_03_no_semicolon by simp

lemma profile_label_inj:
  assumes "profile_label rg az = profile_label rg' az'"
  shows "rg = rg' \<and> az = az'"
proof -
  from assms have eq: "format_03 rg @ ''; az: '' @ format_03 az =
      format_03 rg' @ ''; az: '' @ format_03 az'"
    by (simp add: profile_label_def)
  then have "takeWhile (\<lambda>c. c \<noteq> CHR '';'') (format_03 rg @ ''; az: '' @ format_03 az) =
      takeWhile (\<lambda>c. c \<noteq> CHR '';'') (format_03 rg' @ ''; az: '' @ format_03 az')"
    by simp
  then have r: "format_03 rg = format_03 rg'"
    using takeWhile_format_03 by simp
  with eq have "format_03 az = format_03 az'" by simp
  with r show ?thesis by (simp add: format_03_inj)
qed

subsection \<open>Indexing\<close>

lemma py_index_valid:
  "- int n \<le> k \<Longrightarrow> k < int n \<Longrightarrow> py_index n k = Inr (position n k)"
  by (simp add: py_index_def position_def)

lemma py_index_invalid:
  "k < - int n \<or> int n \<le> k \<Longrightarrow> py_index n k = Inl IndexError"
  by (auto simp add: py_index_def)

lemma length_py_range: "length (py_range a b) = nat (b - a)"
  by (simp add: py_range_def)

lemma profile_fits: "odd n \<Longrightarrow> nat (2 * int (n div 2) + 1) = n"
  by (elim oddE) simp

lemma profile_misfits: "even n \<Longrightarrow> nat (2 * int (n div 2) + 1) \<noteq> n"
  by (elim evenE) simp

subsection \<open>Truncation\<close>

lemma py_int_truncates:
  "\<bar>real_of_int (py_int x)\<bar> \<le> \<bar>x\<bar> \<and> \<bar>x - real_of_int (py_int x)\<bar> < 1"
proof (cases "0 \<le> x")
  case True
  then have p: "py_int x = \<lfloor>x\<rfloor>" by (simp add: py_int_def)
  from True have "0 \<le> \<lfloor>x\<rfloor>" by simp
  then have "0 \<le> real_of_int \<lfloor>x\<rfloor>" by simp
  moreover have "real_of_int \<lfloor>x\<rfloor> \<le> x" "x < real_of_int \<lfloor>x\<rfloor> + 1" by linarith+
  ultimately show ?thesis unfolding p by linarith
next
  case False
  then have p: "py_int x = \<lceil>x\<rceil>" by (simp add: py_int_def)
  from False have "\<lceil>x\<rceil> \<le> 0" by (simp add: ceiling_le_iff)
  then have "real_of_int \<lceil>x\<rceil> \<le> 0" by simp
  moreover have "x \<le> real_of_int \<lceil>x\<rceil>" "real_of_int \<lceil>x\<rceil> < x + 1" by linarith+
  ultimately show ?thesis unfolding p by linarith
qed

section \<open>Facts about \<open>Tomographyplot\<close>\<close>

lemma inv_shapes:
  "Tomographyplot_inv self \<Longrightarrow>
     shape0 (caponnorm self) = shape0 (capon_bf_abs self) \<and>
     shape1 (caponnorm self) = shape1 (capon_bf_abs self) \<and>
     shape2 (caponnorm self) = shape2 (capon_bf_abs self)"
  by (simp add: Tomographyplot_inv_def shape_def)

lemma inv_height:
  "Tomographyplot_inv self \<Longrightarrow> height self = int (shape2 (capon_bf_abs self) div 2)"
  by (simp add: Tomographyplot_inv_def)

lemma inv_slider:
  "Tomographyplot_inv self \<Longrightarrow>
     slider_min (slider self) = - height self \<and> slider_max (slider self) = height self"
  by (simp add: Tomographyplot_inv_def)

lemma set_checkbox_frame:
  "checkbox (set_checkbox self v) = v"
  "height (set_checkbox self v) = height self"
  "capon_bf_abs (set_checkbox self v) = capon_bf_abs self"
  "caponnorm (set_checkbox self v) = caponnorm self"
  "ax2 (set_checkbox self v) = ax2 self"
  "lhor (set_checkbox self v) = lhor self"
  "lver (set_checkbox self v) = lver self"
  by (simp_all add: set_checkbox_def)

lemma set_checkbox_inv:
  "Tomographyplot_inv self \<Longrightarrow> Tomographyplot_inv (set_checkbox self v)"
  by (simp add: Tomographyplot_inv_def set_checkbox_def)

lemma init_vertical_plot_frame:
  "height (init_vertical_plot self) = height self"
  "capon_bf_abs (init_vertical_plot self) = capon_bf_abs self"
  "caponnorm (init_vertical_plot self) = caponnorm self"
  "checkbox (init_vertical_plot self) = checkbox self"
  "slider (init_vertical_plot self) = slider self"
  "ax1 (init_vertical_plot self) = ax1 self"
  "ax3 (init_vertical_plot self) = ax3 self"
  "ax4 (init_vertical_plot self) = ax4 self"
  "lhor (init_vertical_plot self) = lhor self"
  "lver (init_vertical_plot self) = lver self"
  by (simp_all add: init_vertical_plot_def Let_def)

lemma init_vertical_plot_lines:
  "ax_lines (ax2 (init_vertical_plot self)) = []"
  by (simp add: init_vertical_plot_def Let_def cla_def subplot_def)

lemma init_vertical_plot_inv:
  "Tomographyplot_inv self \<Longrightarrow> Tomographyplot_inv (init_vertical_plot self)"
  by (simp add: Tomographyplot_inv_def init_vertical_plot_def Let_def cla_def subplot_def)

lemma init_vertical_plot_panel:
  "Tomographyplot_inv self \<Longrightarrow>
   ax2 (init_vertical_plot self) =
     subplot\<lparr>ax_ylabel := ''height [m]'', ax_xlabel := ''reflectivity'',
             ax_title := ''vertical point profiles'',
             ax_ylim := Some (- height self, height self)\<rparr>"
  by (rule axes.equality)
     (simp_all add: Tomographyplot_inv_def init_vertical_plot_def Let_def cla_def subplot_def)

lemma init_vertical_plot_crosshair:
  "ax2 (init_vertical_plot (self\<lparr>lhor := y, lver := x\<rparr>)) = ax2 (init_vertical_plot self)"
  by (simp add: init_vertical_plot_def Let_def)

subsection \<open>\<open>onslide\<close>\<close>

lemma onslide_frame:
  "height (snd (Tomographyplot_onslide self h)) = height self"
  "capon_bf_abs (snd (Tomographyplot_onslide self h)) = capon_bf_abs self"
  "caponnorm (snd (Tomographyplot_onslide self h)) = caponnorm self"
  "checkbox (snd (Tomographyplot_onslide self h)) = checkbox self"
  "slider (snd (Tomographyplot_onslide self h)) = slider self"
  "ax2 (snd (Tomographyplot_onslide self h)) = ax2 self"
  "ax3 (snd (Tomographyplot_onslide self h)) = ax3 self"
  "ax4 (snd (Tomographyplot_onslide self h)) = ax4 self"
  "lhor (snd (Tomographyplot_onslide self h)) = lhor self"
  "lver (snd (Tomographyplot_onslide self h)) = lver self"
  by (simp_all add: Tomographyplot_onslide_def Let_def split: sum.split option.split)

lemma onslide_invalid:
  "k = height self - h \<Longrightarrow> k < - int (shape2 (caponnorm self)) \<or> int (shape2 (caponnorm self)) \<le> k \<Longrightarrow>
   Tomographyplot_onslide self h = (Some IndexError, self)"
  by (simp add: Tomographyplot_onslide_def getitem_frame_def py_index_invalid)

lemma list_all_tl: "list_all P xs \<Longrightarrow> list_all P (tl xs)"
  by (cases xs) simp_all

lemma onslide_valid:
  assumes cb: "list_all (\<lambda>im. img_colorbar im \<noteq> None) (ax_images (ax1 self))"
    and lo: "- int (shape2 (caponnorm self)) \<le> height self - h"
    and hi: "height self - h < int (shape2 (caponnorm self))"
  shows "\<exists>self'. Tomographyplot_onslide self h = (None, self') \<and>
           ax_images (ax1 self') = tl (ax_images (ax1 self)) @
             [\<lparr>img_data = frame (caponnorm self) (position (shape2 (caponnorm self)) (height self - h)),
               img_transform = Identity, img_cmap = Some ''jet'', img_origin = Some ''upper'',
               img_colorbar = Some ''reflectivity''\<rparr>] \<and>
           ax_title (ax1 self') = ''horizontal slice at height '' @ py_str h @ '' m''"
proof (cases "ax_images (ax1 self)")
  case Nil
  with lo hi show ?thesis
    by (simp add: Tomographyplot_onslide_def getitem_frame_def py_index_valid Let_def
        imshow_def colorbar_def)
next
  case (Cons im ims)
  with cb obtain cbar where "img_colorbar im = Some cbar" by auto
  with Cons lo hi show ?thesis
    by (simp add: Tomographyplot_onslide_def getitem_frame_def py_index_valid Let_def
        imshow_def colorbar_def)
qed

lemma onslide_inv:
  assumes "Tomographyplot_inv self"
  shows "Tomographyplot_inv (snd (Tomographyplot_onslide self h))"
proof (cases "- int (shape2 (caponnorm self)) \<le> height self - h \<and>
              height self - h < int (shape2 (caponnorm self))")
  case True
  from assms have cb: "list_all (\<lambda>im. img_colorbar im \<noteq> None) (ax_images (ax1 self))"
    by (simp add: Tomographyplot_inv_def)
  from onslide_valid [OF cb] True obtain self' where
    s: "Tomographyplot_onslide self h = (None, self')" and
    im: "ax_images (ax1 self') = tl (ax_images (ax1 self)) @
             [\<lparr>img_data = frame (caponnorm self) (position (shape2 (caponnorm self)) (height self - h)),
               img_transform = Identity, img_cmap = Some ''jet'', img_origin = Some ''upper'',
               img_colorbar = Some ''reflectivity''\<rparr>]"
    by blast
  have "self' = snd (Tomographyplot_onslide self h)" using s by simp
  then have fr: "height self' = height self" "capon_bf_abs self' = capon_bf_abs self"
    "caponnorm self' = caponnorm self" "ax2 self' = ax2 self" "slider self' = slider self"
    by (simp_all add: onslide_frame)
  from cb have "list_all (\<lambda>im. img_colorbar im \<noteq> None) (ax_images (ax1 self'))"
    by (simp add: im list_all_tl)
  with assms fr s show ?thesis
    by (simp add: Tomographyplot_inv_def)
next
  case False
  then have "Tomographyplot_onslide self h = (Some IndexError, self)"
    by (intro onslide_invalid) auto
  with assms show ?thesis by simp
qed

subsection \<open>\<open>onclick\<close>\<close>

lemma onclick_outside:
  "inaxes ev \<noteq> Some Ax1 \<Longrightarrow> Tomographyplot_onclick self ev = (None, self)"
  by (simp add: Tomographyplot_onclick_def)

lemma onclick_frame:
  "height (snd (Tomographyplot_onclick self ev)) = height self"
  "capon_bf_abs (snd (Tomographyplot_onclick self ev)) = capon_bf_abs self"
  "caponnorm (snd (Tomographyplot_onclick self ev)) = caponnorm self"
  "checkbox (snd (Tomographyplot_onclick self ev)) = checkbox self"
  "slider (snd (Tomographyplot_onclick self ev)) = slider self"
  "ax1 (snd (Tomographyplot_onclick self ev)) = ax1 self"
  by (simp_all add: Tomographyplot_onclick_def Let_def reset_crosshair_def
      init_vertical_plot_frame split: sum.split)

lemma onclick_crosshair:
  "inaxes ev = Some Ax1 \<Longrightarrow>
   lver (snd (Tomographyplot_onclick self ev)) = py_int (xdata ev) \<and>
   lhor (snd (Tomographyplot_onclick self ev)) = py_int (ydata ev)"
  by (simp add: Tomographyplot_onclick_def Let_def reset_crosshair_def
      init_vertical_plot_frame split: sum.split)

lemma onclick_ticks:
  "ax_yticks (ax3 (snd (Tomographyplot_onclick self ev))) = ax_yticks (ax3 self)"
  "ax_yticklabels (ax3 (snd (Tomographyplot_onclick self ev))) = ax_yticklabels (ax3 self)"
  "ax_yticks (ax4 (snd (Tomographyplot_onclick self ev))) = ax_yticks (ax4 self)"
  "ax_yticklabels (ax4 (snd (Tomographyplot_onclick self ev))) = ax_yticklabels (ax4 self)"
  by (simp_all add: Tomographyplot_onclick_def Let_def reset_crosshair_def imshow_def
      init_vertical_plot_frame split: sum.split)


lemma getitem_profile_valid:
  "- int (shape0 a) \<le> i \<Longrightarrow> i < int (shape0 a) \<Longrightarrow>
   - int (shape1 a) \<le> j \<Longrightarrow> j < int (shape1 a) \<Longrightarrow>
   getitem_profile a i j =
     Inr (map (elem3 a (position (shape0 a) i) (position (shape1 a) j)) [0..<shape2 a])"
  by (simp add: getitem_profile_def py_index_valid)

lemma getitem_profile_invalid:
  "i < - int (shape0 a) \<or> int (shape0 a) \<le> i \<or> j < - int (shape1 a) \<or> int (shape1 a) \<le> j \<Longrightarrow>
   getitem_profile a i j = Inl IndexError"
  by (auto simp add: getitem_profile_def py_index_def)

lemma onclick_on_volume:
  assumes inv: "Tomographyplot_inv self" and ev: "on_volume self ev"
    and odd: "odd (shape2 (capon_bf_abs self))"
  shows "fst (Tomographyplot_onclick self ev) = None \<and>
     ax2 (snd (Tomographyplot_onclick self ev)) =
       legend ((if checkbox self then ax2 self else ax2 (init_vertical_plot self))
         \<lparr>ax_lines := (if checkbox self then ax_lines (ax2 self) else []) @
            [\<lparr>line_xdata = flipud (map (elem3 (capon_bf_abs self)
                   (position (shape0 (capon_bf_abs self)) (py_int (ydata ev)))
                   (position (shape1 (capon_bf_abs self)) (py_int (xdata ev))))
                   [0..<shape2 (capon_bf_abs self)]),
               line_ydata = py_range (- height self) (height self + 1),
               line_label = profile_label (py_int (xdata ev)) (py_int (ydata ev))\<rparr>]\<rparr>)"
proof -
  let ?rg = "py_int (xdata ev)" and ?az = "py_int (ydata ev)"
  let ?a = "capon_bf_abs self" and ?b = "caponnorm self"
  from ev have ax: "inaxes ev = Some Ax1"
    and rg: "- int (shape1 ?a) \<le> ?rg" "?rg < int (shape1 ?a)"
    and az: "- int (shape0 ?a) \<le> ?az" "?az < int (shape0 ?a)"
    by (simp_all add: on_volume_def)
  have p: "getitem_profile ?a ?az ?rg =
      Inr (map (elem3 ?a (position (shape0 ?a) ?az) (position (shape1 ?a) ?rg)) [0..<shape2 ?a])"
    using rg az by (rule_tac getitem_profile_valid)
  have r: "getitem_axis0 ?b ?az = Inr \<lparr>nrows = shape1 ?b, ncols = shape2 ?b,
      elem2 = (\<lambda>j k. elem3 ?b (position (shape0 ?b) ?az) j k)\<rparr>"
    using az inv_shapes [OF inv] by (simp add: getitem_axis0_def py_index_valid)
  have z: "getitem_axis1 ?b ?rg = Inr \<lparr>nrows = shape0 ?b, ncols = shape2 ?b,
      elem2 = (\<lambda>i k. elem3 ?b i (position (shape1 ?b) ?rg) k)\<rparr>"
    using rg inv_shapes [OF inv] by (simp add: getitem_axis1_def py_index_valid)
  have len: "nat (height self + 1 - - height self) = shape2 ?a"
    using profile_fits [OF odd] inv_height [OF inv] by simp
  show ?thesis
    using ax len
    by (simp add: Tomographyplot_onclick_def Let_def reset_crosshair_def p r z plot_def
        flipud_def length_py_range init_vertical_plot_frame init_vertical_plot_lines
        init_vertical_plot_crosshair)
qed

subsection \<open>The slider and the height axis\<close>

lemma getitem_frame_valid:
  "0 \<le> k \<Longrightarrow> k < int (shape2 a) \<Longrightarrow> getitem_frame a k = Inr (frame a (nat k))"
  by (simp add: getitem_frame_def py_index_def)

lemma getitem_frame_invalid:
  "int (shape2 a) \<le> k \<Longrightarrow> getitem_frame a k = Inl IndexError"
  by (simp add: getitem_frame_def py_index_def)

lemma slider_span:
  "Tomographyplot_inv self \<Longrightarrow>
   height self - (- height self) =
     (if even (shape2 (caponnorm self)) then int (shape2 (caponnorm self))
      else int (shape2 (caponnorm self)) - 1)"
  using inv_shapes [of self] inv_height [of self]
  by (auto elim!: evenE oddE)

subsection \<open>Presses that fail, and the invariant\<close>

lemma onclick_off_volume:
  assumes ax: "inaxes ev = Some Ax1" and off: "\<not> on_volume self ev"
  shows "Tomographyplot_onclick self ev =
     (Some IndexError, reset_crosshair self (py_int (xdata ev)) (py_int (ydata ev)))"
proof -
  have "getitem_profile (capon_bf_abs self) (py_int (ydata ev)) (py_int (xdata ev)) = Inl IndexError"
    using ax off by (intro getitem_profile_invalid) (auto simp add: on_volume_def)
  with ax show ?thesis
    by (simp add: Tomographyplot_onclick_def Let_def reset_crosshair_def)
qed

lemma onclick_even_height:
  assumes inv: "Tomographyplot_inv self" and ev: "on_volume self ev"
    and even: "even (shape2 (capon_bf_abs self))"
  shows "Tomographyplot_onclick self ev =
     (Some ValueError,
      if checkbox self then reset_crosshair self (py_int (xdata ev)) (py_int (ydata ev))
      else init_vertical_plot (reset_crosshair self (py_int (xdata ev)) (py_int (ydata ev))))"
proof -
  let ?rg = "py_int (xdata ev)" and ?az = "py_int (ydata ev)"
  let ?a = "capon_bf_abs self" and ?b = "caponnorm self"
  from ev have ax: "inaxes ev = Some Ax1"
    and rg: "- int (shape1 ?a) \<le> ?rg" "?rg < int (shape1 ?a)"
    and az: "- int (shape0 ?a) \<le> ?az" "?az < int (shape0 ?a)"
    by (simp_all add: on_volume_def)
  have p: "getitem_profile ?a ?az ?rg =
      Inr (map (elem3 ?a (position (shape0 ?a) ?az) (position (shape1 ?a) ?rg)) [0..<shape2 ?a])"
    using rg az by (rule_tac getitem_profile_valid)
  have r: "getitem_axis0 ?b ?az = Inr \<lparr>nrows = shape1 ?b, ncols = shape2 ?b,
      elem2 = (\<lambda>j k. elem3 ?b (position (shape0 ?b) ?az) j k)\<rparr>"
    using az inv_shapes [OF inv] by (simp add: getitem_axis0_def py_index_valid)
  have z: "getitem_axis1 ?b ?rg = Inr \<lparr>nrows = shape0 ?b, ncols = shape2 ?b,
      elem2 = (\<lambda>i k. elem3 ?b i (position (shape1 ?b) ?rg) k)\<rparr>"
    using rg inv_shapes [OF inv] by (simp add: getitem_axis1_def py_index_valid)
  have len: "nat (height self + 1 - - height self) \<noteq> shape2 ?a"
    using profile_misfits [OF even] inv_height [OF inv] by simp
  then have len': "shape2 ?a \<noteq> nat (height self + 1 - - height self)" by simp
  show ?thesis
    using ax len'
    by (simp add: Tomographyplot_onclick_def Let_def reset_crosshair_def p r z plot_def
        flipud_def length_py_range init_vertical_plot_frame)
qed

lemma reset_crosshair_inv:
  "Tomographyplot_inv self \<Longrightarrow> Tomographyplot_inv (reset_crosshair self x y)"
  by (simp add: Tomographyplot_inv_def reset_crosshair_def)

lemma onclick_inv:
  assumes inv: "Tomographyplot_inv self"
  shows "Tomographyplot_inv (snd (Tomographyplot_onclick self ev))"
proof (cases "inaxes ev = Some Ax1")
  case False
  with inv show ?thesis by (simp add: onclick_outside)
next
  case ax: True
  show ?thesis
  proof (cases "on_volume self ev")
    case False
    with ax inv show ?thesis by (simp add: onclick_off_volume reset_crosshair_inv)
  next
    case on: True
    show ?thesis
    proof (cases "even (shape2 (capon_bf_abs self))")
      case True
      with on inv show ?thesis
        by (simp add: onclick_even_height reset_crosshair_inv init_vertical_plot_inv)
    next
      case False
      let ?s = "snd (Tomographyplot_onclick self ev)"
      from onclick_on_volume [OF inv on False]
      have a2: "ax2 ?s = legend ((if checkbox self then ax2 self else ax2 (init_vertical_plot self))
         \<lparr>ax_lines := (if checkbox self then ax_lines (ax2 self) else []) @
            [\<lparr>line_xdata = flipud (map (elem3 (capon_bf_abs self)
                   (position (shape0 (capon_bf_abs self)) (py_int (ydata ev)))
                   (position (shape1 (capon_bf_abs self)) (py_int (xdata ev))))
                   [0..<shape2 (capon_bf_abs self)]),
               line_ydata = py_range (- height self) (height self + 1),
               line_label = profile_label (py_int (xdata ev)) (py_int (ydata ev))\<rparr>]\<rparr>)"
        by simp
      have "Tomographyplot_inv (init_vertical_plot self)"
        using inv by (rule init_vertical_plot_inv)
      with inv show ?thesis
        by (simp add: Tomographyplot_inv_def onclick_frame a2 legend_def
            init_vertical_plot_frame init_vertical_plot_lines)
    qed
  qed
qed

text \<open>
  What a press on the volume does to the profile panel, in terms of the call to \<open>plot\<close>:
  the handler passes the reversed profile \<open>capon_bf_abs[az, rg, :]\<close> and the heights
  \<open>range(-H, H + 1)\<close>, and the outcome of that call is the outcome of the handler.
\<close>

lemma onclick_plots_profile:
  assumes inv: "Tomographyplot_inv self" and on: "on_volume self ev"
  shows "case plot (if checkbox self then ax2 self else ax2 (init_vertical_plot self))
               (flipud (map (elem3 (capon_bf_abs self)
                  (position (shape0 (capon_bf_abs self)) (py_int (ydata ev)))
                  (position (shape1 (capon_bf_abs self)) (py_int (xdata ev))))
                  [0..<shape2 (capon_bf_abs self)]))
               (py_range (- height self) (height self + 1))
               (profile_label (py_int (xdata ev)) (py_int (ydata ev))) of
           Inl e \<Rightarrow> fst (Tomographyplot_onclick self ev) = Some e \<and>
             ax2 (snd (Tomographyplot_onclick self ev)) =
               (if checkbox self then ax2 self else ax2 (init_vertical_plot self))
         | Inr a \<Rightarrow> fst (Tomographyplot_onclick self ev) = None \<and>
             ax2 (snd (Tomographyplot_onclick self ev)) = legend a"
proof (cases "even (shape2 (capon_bf_abs self))")
  case True
  have len: "shape2 (capon_bf_abs self) \<noteq> nat (height self + 1 - - height self)"
    using profile_misfits [OF True] inv_height [OF inv] by simp
  show ?thesis
    using len
    by (simp add: onclick_even_height [OF inv on True] plot_def flipud_def length_py_range
        reset_crosshair_def init_vertical_plot_crosshair)
next
  case False
  have len: "nat (height self + 1 - - height self) = shape2 (capon_bf_abs self)"
    using profile_fits [OF False] inv_height [OF inv] by simp
  show ?thesis
    using len onclick_on_volume [OF inv on False]
    by (simp add: plot_def flipud_def length_py_range init_vertical_plot_lines)
qed

subsection \<open>Sequences of presses\<close>

lemma onclick_lines:
  assumes "Tomographyplot_inv self" and "on_volume self ev" and "odd (shape2 (capon_bf_abs self))"
  shows "map line_label (ax_lines (ax2 (snd (Tomographyplot_onclick self ev)))) =
     (if checkbox self then map line_label (ax_lines (ax2 self)) else []) @
       [profile_label (py_int (xdata ev)) (py_int (ydata ev))]"
  using onclick_on_volume [OF assms] by (simp add: legend_def)

lemma clicks_snoc:
  "clicks self (evs @ [ev]) = snd (Tomographyplot_onclick (clicks self evs) ev)"
  by (induction evs arbitrary: self) simp_all


lemma clicks_frame:
  "height (clicks self evs) = height self \<and> capon_bf_abs (clicks self evs) = capon_bf_abs self \<and>
   caponnorm (clicks self evs) = caponnorm self \<and> checkbox (clicks self evs) = checkbox self"
  by (induction evs arbitrary: self) (simp_all add: onclick_frame)

lemma clicks_inv:
  "Tomographyplot_inv self \<Longrightarrow> Tomographyplot_inv (clicks self evs)"
  by (induction evs arbitrary: self) (simp_all add: onclick_inv)

lemma profile_label_pixel_inj:
  "inj (\<lambda>p. profile_label (fst p) (snd p))"
proof (rule injI)
  fix p q :: "int \<times> int"
  assume "profile_label (fst p) (snd p) = profile_label (fst q) (snd q)"
  then have "fst p = fst q \<and> snd p = snd q" by (rule profile_label_inj)
  then show "p = q" by (simp add: prod_eq_iff)
qed


lemma on_volume_clicks:
  "on_volume (clicks self evs) ev = on_volume self ev"
  by (simp add: on_volume_def clicks_frame)

lemma clicks_stacked_labels:
  assumes "Tomographyplot_inv self" and "odd (shape2 (capon_bf_abs self))"
    and "\<forall>ev\<in>set evs. on_volume self ev" and "checkbox self"
  shows "map line_label (ax_lines (ax2 (clicks self evs))) =
     map line_label (ax_lines (ax2 self)) @
       map (\<lambda>ev. profile_label (fst (pixel ev)) (snd (pixel ev))) evs"
  using assms
proof (induction evs rule: rev_induct)
  case Nil
  then show ?case by simp
next
  case (snoc ev evs)
  let ?s = "clicks self evs"
  have fr: "capon_bf_abs ?s = capon_bf_abs self" "checkbox ?s = checkbox self"
    using clicks_frame [of self evs] by simp_all
  have inv: "Tomographyplot_inv ?s" using snoc.prems(1) by (rule clicks_inv)
  have on: "on_volume ?s ev" using snoc.prems(3) by (simp add: on_volume_clicks)
  have odd: "odd (shape2 (capon_bf_abs ?s))" using snoc.prems(2) fr(1) by simp
  have cb: "checkbox ?s" using snoc.prems(4) fr(2) by simp
  have ih: "map line_label (ax_lines (ax2 ?s)) =
     map line_label (ax_lines (ax2 self)) @
       map (\<lambda>ev. profile_label (fst (pixel ev)) (snd (pixel ev))) evs"
    using snoc.IH snoc.prems by simp
  have "map line_label (ax_lines (ax2 (clicks self (evs @ [ev])))) =
      map line_label (ax_lines (ax2 ?s)) @ [profile_label (py_int (xdata ev)) (py_int (ydata ev))]"
    using onclick_lines [OF inv on odd] cb by (simp add: clicks_snoc)
  with ih show ?case by (simp add: pixel_def)
qed

lemma clicks_unstacked_labels:
  assumes "Tomographyplot_inv self" and "odd (shape2 (capon_bf_abs self))"
    and "\<forall>ev\<in>set evs. on_volume self ev" and "\<not> checkbox self" and "evs \<noteq> []"
  shows "map line_label (ax_lines (ax2 (clicks self evs))) =
       [profile_label (fst (pixel (last evs))) (snd (pixel (last evs)))]"
proof -
  from assms(5) obtain es e where evs: "evs = es @ [e]"
    by (cases evs rule: rev_cases) auto
  let ?s = "clicks self es"
  have fr: "capon_bf_abs ?s = capon_bf_abs self" "checkbox ?s = checkbox self"
    using clicks_frame [of self es] by simp_all
  have inv: "Tomographyplot_inv ?s" using assms(1) by (rule clicks_inv)
  have on: "on_volume ?s e" using assms(3) evs by (simp add: on_volume_clicks)
  have odd: "odd (shape2 (capon_bf_abs ?s))" using assms(2) fr(1) by simp
  have cb: "\<not> checkbox ?s" using assms(4) fr(2) by simp
  show ?thesis
    using onclick_lines [OF inv on odd] cb by (simp add: evs clicks_snoc pixel_def)
qed

lemma clicks_ticks:
  "ax_yticks (ax3 (clicks self evs)) = ax_yticks (ax3 self) \<and>
   ax_yticklabels (ax3 (clicks self evs)) = ax_yticklabels (ax3 self) \<and>
   ax_yticks (ax4 (clicks self evs)) = ax_yticks (ax4 self) \<and>
   ax_yticklabels (ax4 (clicks self evs)) = ax_yticklabels (ax4 self)"
  by (induction evs arbitrary: self) (simp_all add: onclick_ticks)

subsection \<open>The constructor\<close>

lemma init_unfold:
  assumes "shape b = shape a"
  shows "Tomographyplot_init gui a b =
     (gui @ [Widget_IntSlider \<lparr>slider_min = - int (shape2 a div 2), slider_max = int (shape2 a div 2),
                slider_step = 10, slider_value = 0\<rparr>,
             Widget_Checkbox True ''stack vertical profiles'',
             Widget_Button ''clear vertical plot'', Displayed_form, Figure],
      Inr (snd (Tomographyplot_onslide (init_vertical_plot
        \<lparr>height = int (shape2 a div 2), capon_bf_abs = a, caponnorm = b,
         slider = \<lparr>slider_min = - int (shape2 a div 2), slider_max = int (shape2 a div 2),
                slider_step = 10, slider_value = 0\<rparr>,
         checkbox = True, ax1 = subplot, ax2 = subplot,
         ax3 = subplot\<lparr>ax_xlim := Some (0, int (shape1 a)),
                       ax_yticks := Some (ytick_pos (int (shape2 a div 2))),
                       ax_yticklabels := Some (ytick_lab (int (shape2 a div 2)))\<rparr>,
         ax4 = subplot\<lparr>ax_xlim := Some (0, int (shape0 a)),
                       ax_yticks := Some (ytick_pos (int (shape2 a div 2))),
                       ax_yticklabels := Some (ytick_lab (int (shape2 a div 2)))\<rparr>,
         lhor = 0, lver = 0\<rparr>) 0)))"
  using assms by (simp add: Tomographyplot_init_def IntSlider_def Let_def)

lemma init_facts:
  assumes "shape b = shape a"
  shows "\<exists>gui' self. Tomographyplot_init gui a b = (gui', Inr self) \<and>
      Tomographyplot_inv self \<and> height self = int (shape2 a div 2) \<and>
      capon_bf_abs self = a \<and> caponnorm self = b \<and> checkbox self \<and>
      ax_lines (ax2 self) = [] \<and>
      ax2 self = subplot\<lparr>ax_ylabel := ''height [m]'', ax_xlabel := ''reflectivity'',
             ax_title := ''vertical point profiles'',
             ax_ylim := Some (- int (shape2 a div 2), int (shape2 a div 2))\<rparr> \<and>
      ax_yticks (ax3 self) = Some (ytick_pos (int (shape2 a div 2))) \<and>
      ax_yticklabels (ax3 self) = Some (ytick_lab (int (shape2 a div 2))) \<and>
      ax_yticks (ax4 self) = Some (ytick_pos (int (shape2 a div 2))) \<and>
      ax_yticklabels (ax4 self) = Some (ytick_lab (int (shape2 a div 2)))"
proof -
  let ?H = "int (shape2 a div 2)"
  let ?self0 = "\<lparr>height = ?H, capon_bf_abs = a, caponnorm = b,
         slider = \<lparr>slider_min = - ?H, slider_max = ?H, slider_step = 10, slider_value = 0\<rparr>,
         checkbox = True, ax1 = subplot, ax2 = subplot,
         ax3 = subplot\<lparr>ax_xlim := Some (0, int (shape1 a)),
                       ax_yticks := Some (ytick_pos ?H),
                       ax_yticklabels := Some (ytick_lab ?H)\<rparr>,
         ax4 = subplot\<lparr>ax_xlim := Some (0, int (shape0 a)),
                       ax_yticks := Some (ytick_pos ?H),
                       ax_yticklabels := Some (ytick_lab ?H)\<rparr>,
         lhor = 0, lver = 0\<rparr>"
  have inv0: "Tomographyplot_inv ?self0"
    using assms by (simp add: Tomographyplot_inv_def subplot_def)
  then have inv1: "Tomographyplot_inv (init_vertical_plot ?self0)"
    by (rule init_vertical_plot_inv)
  then have inv2: "Tomographyplot_inv (snd (Tomographyplot_onslide (init_vertical_plot ?self0) 0))"
    by (rule onslide_inv)
  have panel: "ax2 (init_vertical_plot ?self0) =
      subplot\<lparr>ax_ylabel := ''height [m]'', ax_xlabel := ''reflectivity'',
             ax_title := ''vertical point profiles'', ax_ylim := Some (- ?H, ?H)\<rparr>"
    using init_vertical_plot_panel [OF inv0] by simp
  show ?thesis
    unfolding init_unfold [OF assms]
    using inv2 panel
    by (simp add: onslide_frame init_vertical_plot_frame subplot_def)
qed


lemma demo_volume_shape:
  "shape0 (demo_volume a r h) = a" "shape1 (demo_volume a r h) = r" "shape2 (demo_volume a r h) = h"
  by (simp_all add: demo_volume_def)

lemma demo_explorer_facts:
  "Tomographyplot_inv (demo_explorer n)"
  "height (demo_explorer n) = int (n div 2)"
  "capon_bf_abs (demo_explorer n) = demo_volume 2 2 n"
  "caponnorm (demo_explorer n) = demo_volume 2 2 n"
  "checkbox (demo_explorer n)"
  "ax_lines (ax2 (demo_explorer n)) = []"
  using init_facts [of "demo_volume 2 2 n" "demo_volume 2 2 n" "[]"]
  by (auto simp add: demo_explorer_def demo_volume_shape)

lemma init_Inr_shapes:
  "Tomographyplot_init gui a b = (gui', Inr self) \<Longrightarrow> shape b = shape a"
  by (cases "shape b = shape a") (simp_all add: Tomographyplot_init_def)

subsection \<open>The tick lists\<close>

lemma ytick_pos_spec: "ytick_pos H = spec_tick_positions (real_of_int H)"
  by (simp add: ytick_pos_def spec_tick_positions_def)

lemma ytick_lab_even:
  assumes "even H"
  shows "map real_of_int (ytick_lab H) = spec_tick_labels (real_of_int H) \<and>
         symmetric_labels (ytick_lab H)"
proof -
  from assms obtain k where k: "H = 2 * k" by (elim evenE)
  then have neg: "(- H) div 2 = - k" and pos: "H div 2 = k"
    by presburger+
  show ?thesis
    by (simp add: ytick_lab_def spec_tick_labels_def symmetric_labels_def neg pos) (simp add: k)
qed

lemma ytick_lab_5: "ytick_lab 5 = [- 5, - 3, 0, 2, 5]"
  by (simp add: ytick_lab_def)

subsection \<open>The concrete component\<close>

lemma press_simps:
  "inaxes (press a x y) = a" "xdata (press a x y) = x" "ydata (press a x y) = y"
  "pixel (press a x y) = (py_int x, py_int y)"
  by (simp_all add: press_def pixel_def)

lemma on_volume_demo:
  "on_volume (demo_explorer n) (press a x y) \<longleftrightarrow>
     a = Some Ax1 \<and> - 2 \<le> py_int x \<and> py_int x < 2 \<and> - 2 \<le> py_int y \<and> py_int y < 2"
  "on_volume (set_checkbox (demo_explorer n) v) (press a x y) \<longleftrightarrow>
     a = Some Ax1 \<and> - 2 \<le> py_int x \<and> py_int x < 2 \<and> - 2 \<le> py_int y \<and> py_int y < 2"
  by (simp_all add: on_volume_def press_simps set_checkbox_frame demo_explorer_facts
      demo_volume_shape)

lemma py_int_numerals:
  "py_int 0 = 0" "py_int 1 = 1" "py_int 5 = 5" "py_int (2 / 5) = 0" "py_int (1 / 5) = 0"
  "py_int (17 / 10) = 1" "py_int (27 / 10) = 2" "py_int (- (27 / 10)) = - 2"
  "py_int (- (3 / 10)) = 0"
  by (simp_all add: py_int_def)

section \<open>Facts about \<open>DataViewer\<close>\<close>

lemma list_getitem_valid:
  "0 \<le> k \<Longrightarrow> k < int (length xs) \<Longrightarrow> list_getitem xs k = Inr (xs ! nat k)"
  by (simp add: list_getitem_def py_index_def)

lemma DataViewer_onslide_frame:
  "slc_list (snd (DataViewer_onslide self h)) = slc_list self"
  "phase_list (snd (DataViewer_onslide self h)) = phase_list self"
  "kz_list (snd (DataViewer_onslide self h)) = kz_list self"
  "dv_slider (snd (DataViewer_onslide self h)) = dv_slider self"
  by (simp_all add: DataViewer_onslide_def Let_def split: sum.split prod.split)

lemma DataViewer_onslide_titles:
  assumes "resolve_names self h = Inr (slc_name, phase_name, kz_name)"
  shows "ax_title (dv_ax1 (snd (DataViewer_onslide self h))) = ''SLC intensity: '' @ slc_name"
    and "ax_title (dv_ax2 (snd (DataViewer_onslide self h))) = ''phase: '' @ phase_name"
    and "ax_title (dv_ax3 (snd (DataViewer_onslide self h))) = ''wavenumber: '' @ kz_name"
  using assms
  by (simp_all add: DataViewer_onslide_def Let_def imshow_def split: sum.split)

lemma DataViewer_onslide_inv:
  "DataViewer_inv self \<Longrightarrow> DataViewer_inv (snd (DataViewer_onslide self h))"
  by (simp add: DataViewer_inv_def DataViewer_onslide_frame)

lemma DataViewer_init_facts:
  assumes "2 \<le> length slcs"
  shows "\<exists>gui' self. DataViewer_init gui slcs phases kzs slc_st phase_st kz_st = (gui', Inr self) \<and>
     DataViewer_inv self \<and> slc_list self = slcs \<and> phase_list self = phases \<and>
     kz_list self = kzs"
  using assms
  by (simp add: DataViewer_init_def IntSlider_def Let_def DataViewer_inv_def
      DataViewer_onslide_frame)

lemma demo_viewer_facts:
  "DataViewer_inv demo_viewer"
  "slc_list demo_viewer = [''/data/slc_0.tif'', ''/data/slc_1.tif'', ''/data/slc_2.tif'']"
  "phase_list demo_viewer = [''/data/phase_1.tif'', ''/data/phase_2.tif'']"
  "kz_list demo_viewer = [''/data/kz_1.tif'', ''/data/kz_2.tif'']"
  using DataViewer_init_facts [of "[''/data/slc_0.tif'', ''/data/slc_1.tif'', ''/data/slc_2.tif'']"
    "[]" "[''/data/phase_1.tif'', ''/data/phase_2.tif'']"
    "[''/data/kz_1.tif'', ''/data/kz_2.tif'']"
    "demo_volume 2 2 3" "demo_volume 2 2 3" "demo_volume 2 2 3"]
  by (auto simp add: demo_viewer_def)

section \<open>The claims\<close>

text \<open>
  C1. When the two volumes differ in shape, \<open>Tomographyplot.__init__\<close> raises the
  shape-mismatch error as its first act: the result is the \<open>RuntimeError\<close>, no component,
  and the record of created widgets and figures is what it was before the call.
\<close>

theorem init_mismatch_fails_before_any_widget:
  assumes "shape caponnorm' \<noteq> shape capon_bf_abs'"
  shows "Tomographyplot_init gui capon_bf_abs' caponnorm' =
           (gui, Inl (RuntimeError ''mismatch of input arrays''))"
  using assms by (simp add: Tomographyplot_init_def)

theorem init_mismatch_fails_before_any_widget_witness:
  "shape (demo_volume 10 10 9) \<noteq> shape (demo_volume 10 10 8) \<and>
   Tomographyplot_init [] (demo_volume 10 10 8) (demo_volume 10 10 9) =
     ([], Inl (RuntimeError ''mismatch of input arrays''))"
proof -
  have h: "shape (demo_volume 10 10 9) \<noteq> shape (demo_volume 10 10 8)"
    by (simp add: shape_def demo_volume_def)
  from h init_mismatch_fails_before_any_widget [OF h, of "[]"] show ?thesis
    by (rule conjI)
qed

text \<open>
  C2. For every value \<open>h\<close> of the slider, whose range is \<open>[1, len(slc_list) - 1]\<close>, and
  phase and wavenumber sequences that reach index \<open>len(slc_list) - 2\<close>, \<open>onslide\<close> takes
  the amplitude name from index \<open>h\<close> of \<open>slc_list\<close> and the phase and wavenumber names from
  index \<open>h - 1\<close> of \<open>phase_list\<close> and \<open>kz_list\<close>, and puts their base names into the
  three titles.
\<close>

theorem onslide_resolves_labels:
  assumes inv: "DataViewer_inv self"
    and h: "h \<in> {slider_min (dv_slider self) .. slider_max (dv_slider self)}"
    and phases: "length (slc_list self) - 1 \<le> length (phase_list self)"
    and kzs: "length (slc_list self) - 1 \<le> length (kz_list self)"
  shows "1 \<le> h \<and> h \<le> int (length (slc_list self)) - 1 \<and>
     resolve_names self h =
       Inr (basename (slc_list self ! nat h),
            basename (phase_list self ! nat (h - 1)),
            basename (kz_list self ! nat (h - 1))) \<and>
     ax_title (dv_ax1 (snd (DataViewer_onslide self h))) =
       ''SLC intensity: '' @ basename (slc_list self ! nat h) \<and>
     ax_title (dv_ax2 (snd (DataViewer_onslide self h))) =
       ''phase: '' @ basename (phase_list self ! nat (h - 1)) \<and>
     ax_title (dv_ax3 (snd (DataViewer_onslide self h))) =
       ''wavenumber: '' @ basename (kz_list self ! nat (h - 1))"
proof -
  from inv h have range: "1 \<le> h" "h \<le> int (length (slc_list self)) - 1"
    by (simp_all add: DataViewer_inv_def)
  then have a: "list_getitem (slc_list self) h = Inr (slc_list self ! nat h)"
    by (intro list_getitem_valid) simp_all
  from range phases have "0 \<le> h - 1" "h - 1 < int (length (phase_list self))" by linarith+
  then have p: "list_getitem (phase_list self) (h - 1) = Inr (phase_list self ! nat (h - 1))"
    by (rule list_getitem_valid)
  from range kzs have "0 \<le> h - 1" "h - 1 < int (length (kz_list self))" by linarith+
  then have k: "list_getitem (kz_list self) (h - 1) = Inr (kz_list self ! nat (h - 1))"
    by (rule list_getitem_valid)
  have names: "resolve_names self h =
       Inr (basename (slc_list self ! nat h),
            basename (phase_list self ! nat (h - 1)),
            basename (kz_list self ! nat (h - 1)))"
    by (simp add: resolve_names_def a p k)
  from range names DataViewer_onslide_titles [OF names] show ?thesis by blast
qed

theorem onslide_resolves_labels_witness:
  "DataViewer_inv demo_viewer \<and>
   2 \<in> {slider_min (dv_slider demo_viewer) .. slider_max (dv_slider demo_viewer)} \<and>
   length (slc_list demo_viewer) - 1 \<le> length (phase_list demo_viewer) \<and>
   length (slc_list demo_viewer) - 1 \<le> length (kz_list demo_viewer) \<and>
   resolve_names demo_viewer 2 = Inr (''slc_2.tif'', ''phase_2.tif'', ''kz_2.tif'') \<and>
   ax_title (dv_ax1 (snd (DataViewer_onslide demo_viewer 2))) = ''SLC intensity: slc_2.tif'' \<and>
   ax_title (dv_ax2 (snd (DataViewer_onslide demo_viewer 2))) = ''phase: phase_2.tif'' \<and>
   ax_title (dv_ax3 (snd (DataViewer_onslide demo_viewer 2))) = ''wavenumber: kz_2.tif''"
proof -
  have inv: "DataViewer_inv demo_viewer" by (simp add: demo_viewer_facts)
  then have h: "2 \<in> {slider_min (dv_slider demo_viewer) .. slider_max (dv_slider demo_viewer)}"
    by (simp add: DataViewer_inv_def demo_viewer_facts)
  have phases: "length (slc_list demo_viewer) - 1 \<le> length (phase_list demo_viewer)"
    and kzs: "length (slc_list demo_viewer) - 1 \<le> length (kz_list demo_viewer)"
    by (simp_all add: demo_viewer_facts)
  have names: "basename (slc_list demo_viewer ! nat 2) = ''slc_2.tif''"
    "basename (phase_list demo_viewer ! nat (2 - 1)) = ''phase_2.tif''"
    "basename (kz_list demo_viewer ! nat (2 - 1)) = ''kz_2.tif''"
    by (simp_all add: demo_viewer_facts basename_def)
  from onslide_resolves_labels [OF inv h phases kzs]
  have "resolve_names demo_viewer 2 = Inr (''slc_2.tif'', ''phase_2.tif'', ''kz_2.tif'') \<and>
   ax_title (dv_ax1 (snd (DataViewer_onslide demo_viewer 2))) = ''SLC intensity: slc_2.tif'' \<and>
   ax_title (dv_ax2 (snd (DataViewer_onslide demo_viewer 2))) = ''phase: phase_2.tif'' \<and>
   ax_title (dv_ax3 (snd (DataViewer_onslide demo_viewer 2))) = ''wavenumber: kz_2.tif''"
    by (simp only: names) simp
  with inv h phases kzs show ?thesis by blast
qed

text \<open>
  C3. For a slider value \<open>h\<close> in \<open>[-H, H]\<close> whose index \<open>H - h\<close> lies below the height
  extent, \<open>onslide\<close> succeeds and the image it puts on the horizontal-slice panel is the slice
  of \<open>caponnorm\<close> at array index \<open>H - h\<close>: index 0 for \<open>h = H\<close>, index \<open>2H\<close> for \<open>h = -H\<close>.
  When the height extent is odd this covers every value of the slider.
\<close>

theorem onslide_shows_slice_at_index:
  assumes inv: "Tomographyplot_inv self"
    and h: "h \<in> {slider_min (slider self) .. slider_max (slider self)}"
    and below: "height self - h < int (shape2 (caponnorm self))"
  shows "(\<exists>self'. Tomographyplot_onslide self h = (None, self') \<and>
            ax_images (ax1 self') \<noteq> [] \<and>
            img_data (last (ax_images (ax1 self'))) =
              frame (caponnorm self) (nat (height self - h))) \<and>
         (h = height self \<longrightarrow> nat (height self - h) = 0) \<and>
         (h = - height self \<longrightarrow> nat (height self - h) = nat (2 * height self)) \<and>
         (odd (shape2 (caponnorm self)) \<longrightarrow>
            (\<forall>k\<in>{slider_min (slider self) .. slider_max (slider self)}.
               height self - k < int (shape2 (caponnorm self))))"
proof -
  let ?n = "shape2 (caponnorm self)" and ?H = "height self"
  from inv_slider [OF inv] have sl: "slider_min (slider self) = - ?H" "slider_max (slider self) = ?H"
    by simp_all
  from h have lo: "0 \<le> ?H - h" by (simp add: sl)
  then have lo': "- int ?n \<le> ?H - h" by simp
  from inv have cb: "list_all (\<lambda>im. img_colorbar im \<noteq> None) (ax_images (ax1 self))"
    by (simp add: Tomographyplot_inv_def)
  from onslide_valid [OF cb lo' below] obtain self' where
    ok: "Tomographyplot_onslide self h = (None, self')" and
    im: "ax_images (ax1 self') = tl (ax_images (ax1 self)) @
      [\<lparr>img_data = frame (caponnorm self) (position ?n (?H - h)),
        img_transform = Identity, img_cmap = Some ''jet'', img_origin = Some ''upper'',
        img_colorbar = Some ''reflectivity''\<rparr>]"
    by blast
  from lo have pos: "position ?n (?H - h) = nat (?H - h)"
    by (simp add: position_def)
  have shown: "\<exists>self'. Tomographyplot_onslide self h = (None, self') \<and>
      ax_images (ax1 self') \<noteq> [] \<and>
      img_data (last (ax_images (ax1 self'))) = frame (caponnorm self) (nat (?H - h))"
    using ok im pos by simp
  have all: "?H - k < int ?n" if "odd ?n" and "k \<in> {- ?H .. ?H}" for k
    using slider_span [OF inv] that by simp
  from shown all show ?thesis
    unfolding sl by auto
qed

theorem onslide_shows_slice_at_index_witness:
  "Tomographyplot_inv (demo_explorer 3) \<and>
   - 1 \<in> {slider_min (slider (demo_explorer 3)) .. slider_max (slider (demo_explorer 3))} \<and>
   height (demo_explorer 3) - (- 1) < int (shape2 (caponnorm (demo_explorer 3))) \<and>
   fst (Tomographyplot_onslide (demo_explorer 3) (- 1)) = None \<and>
   img_data (last (ax_images (ax1 (snd (Tomographyplot_onslide (demo_explorer 3) (- 1)))))) =
     frame (demo_volume 2 2 3) 2"
proof -
  let ?d = "demo_explorer 3"
  have inv: "Tomographyplot_inv ?d"
    by (simp add: demo_explorer_facts)
  have h: "- 1 \<in> {slider_min (slider ?d) .. slider_max (slider ?d)}"
    using inv_slider [OF inv] by (simp add: demo_explorer_facts)
  have below: "height ?d - (- 1) < int (shape2 (caponnorm ?d))"
    by (simp add: demo_explorer_facts demo_volume_shape)
  from onslide_shows_slice_at_index [OF inv h below]
  obtain self' where ok: "Tomographyplot_onslide ?d (- 1) = (None, self')"
    and im: "img_data (last (ax_images (ax1 self'))) = frame (caponnorm ?d) (nat (height ?d - (- 1)))"
    by blast
  from ok have "fst (Tomographyplot_onslide ?d (- 1)) = None" by simp
  moreover from ok im
  have "img_data (last (ax_images (ax1 (snd (Tomographyplot_onslide ?d (- 1)))))) =
      frame (demo_volume 2 2 3) 2"
    by (simp add: demo_explorer_facts)
  ultimately show ?thesis using inv h below by blast
qed

theorem onslide_shows_slice_at_index_counterexample:
  "- 1 \<in> {slider_min (slider (demo_explorer 2)) .. slider_max (slider (demo_explorer 2))} \<and>
   height (demo_explorer 2) - (- 1) = 2 \<and>
   shape2 (caponnorm (demo_explorer 2)) = 2 \<and>
   Tomographyplot_onslide (demo_explorer 2) (- 1) = (Some IndexError, demo_explorer 2)"
proof -
  let ?e = "demo_explorer 2"
  have inv: "Tomographyplot_inv ?e"
    by (simp add: demo_explorer_facts)
  have h: "- 1 \<in> {slider_min (slider ?e) .. slider_max (slider ?e)}"
    using inv_slider [OF inv] by (simp add: demo_explorer_facts)
  have H: "height ?e - (- 1) = 2"
    by (simp add: demo_explorer_facts)
  have n: "shape2 (caponnorm ?e) = 2"
    by (simp add: demo_explorer_facts demo_volume_shape)
  have "Tomographyplot_onslide ?e (- 1) = (Some IndexError, ?e)"
    using H n by (intro onslide_invalid [OF refl]) simp
  with h H n show ?thesis by blast
qed

text \<open>
  C4. A press inside the horizontal-slice panel at \<open>(x, y)\<close> is converted to the pixel
  \<open>(rg, az)\<close> by truncation toward zero, and the cross-hair is moved to exactly
  \<open>(rg, az)\<close>. When \<open>rg\<close> and \<open>az\<close> are indices numpy accepts on axes 1 and 0 of the volume,
  the handler takes the vertical profile \<open>capon_bf_abs[az, rg, :]\<close>, which has \<open>shape[2]\<close>
  values, those at the fixed pair over the whole height axis, and raises no \<open>IndexError\<close>: it
  hands the reversed profile to the profile panel's \<open>plot\<close>, whose outcome is the handler's,
  and for an odd height extent the panel's newest line carries exactly these \<open>shape[2]\<close>
  values.
\<close>

theorem onclick_truncates_and_takes_profile:
  assumes "inaxes event = Some Ax1"
  shows "pixel event = (py_int (xdata event), py_int (ydata event)) \<and>
     \<bar>real_of_int (fst (pixel event))\<bar> \<le> \<bar>xdata event\<bar> \<and>
     \<bar>xdata event - real_of_int (fst (pixel event))\<bar> < 1 \<and>
     \<bar>real_of_int (snd (pixel event))\<bar> \<le> \<bar>ydata event\<bar> \<and>
     \<bar>ydata event - real_of_int (snd (pixel event))\<bar> < 1 \<and>
     (lver (snd (Tomographyplot_onclick self event)),
      lhor (snd (Tomographyplot_onclick self event))) = pixel event \<and>
     (on_volume self event \<longrightarrow>
        (\<exists>p. getitem_profile (capon_bf_abs self) (snd (pixel event)) (fst (pixel event)) = Inr p \<and>
             length p = shape2 (capon_bf_abs self) \<and>
             p = map (elem3 (capon_bf_abs self)
                       (position (shape0 (capon_bf_abs self)) (snd (pixel event)))
                       (position (shape1 (capon_bf_abs self)) (fst (pixel event))))
                   [0..<shape2 (capon_bf_abs self)] \<and>
             (Tomographyplot_inv self \<longrightarrow>
                fst (Tomographyplot_onclick self event) \<noteq> Some IndexError \<and>
                (case plot (if checkbox self then ax2 self else ax2 (init_vertical_plot self))
                        (flipud p) (py_range (- height self) (height self + 1))
                        (profile_label (fst (pixel event)) (snd (pixel event))) of
                   Inl e \<Rightarrow> fst (Tomographyplot_onclick self event) = Some e \<and>
                     ax2 (snd (Tomographyplot_onclick self event)) =
                       (if checkbox self then ax2 self else ax2 (init_vertical_plot self))
                 | Inr a \<Rightarrow> fst (Tomographyplot_onclick self event) = None \<and>
                     ax2 (snd (Tomographyplot_onclick self event)) = legend a) \<and>
                (odd (shape2 (capon_bf_abs self)) \<longrightarrow>
                   fst (Tomographyplot_onclick self event) = None \<and>
                   ax_lines (ax2 (snd (Tomographyplot_onclick self event))) \<noteq> [] \<and>
                   line_xdata (last (ax_lines (ax2 (snd (Tomographyplot_onclick self event))))) =
                     flipud p \<and>
                   length (line_xdata
                     (last (ax_lines (ax2 (snd (Tomographyplot_onclick self event)))))) =
                     shape2 (capon_bf_abs self) \<and>
                   line_label (last (ax_lines (ax2 (snd (Tomographyplot_onclick self event))))) =
                     profile_label (fst (pixel event)) (snd (pixel event))))))"
proof -
  let ?a = "capon_bf_abs self"
  let ?p = "map (elem3 ?a (position (shape0 ?a) (snd (pixel event)))
                          (position (shape1 ?a) (fst (pixel event)))) [0..<shape2 ?a]"
  let ?out = "Tomographyplot_onclick self event"
  have px: "pixel event = (py_int (xdata event), py_int (ydata event))"
    by (simp add: pixel_def)
  have tr: "\<bar>real_of_int (fst (pixel event))\<bar> \<le> \<bar>xdata event\<bar>"
    "\<bar>xdata event - real_of_int (fst (pixel event))\<bar> < 1"
    "\<bar>real_of_int (snd (pixel event))\<bar> \<le> \<bar>ydata event\<bar>"
    "\<bar>ydata event - real_of_int (snd (pixel event))\<bar> < 1"
    using py_int_truncates [of "xdata event"] py_int_truncates [of "ydata event"]
    by (simp_all add: px)
  have cross: "(lver (snd ?out), lhor (snd ?out)) = pixel event"
    using onclick_crosshair [OF assms, of self] by (simp add: px)
  have prof: "getitem_profile ?a (snd (pixel event)) (fst (pixel event)) = Inr ?p"
    if "on_volume self event"
    using that by (simp add: px on_volume_def getitem_profile_valid)
  have len: "length ?p = shape2 ?a" by simp
  have noerr: "fst ?out \<noteq> Some IndexError"
    if on: "on_volume self event" and inv: "Tomographyplot_inv self"
  proof (cases "even (shape2 ?a)")
    case True
    from onclick_even_height [OF inv on True] show ?thesis by simp
  next
    case False
    from onclick_on_volume [OF inv on False] show ?thesis by simp
  qed
  have handed: "case plot (if checkbox self then ax2 self else ax2 (init_vertical_plot self))
                        (flipud ?p) (py_range (- height self) (height self + 1))
                        (profile_label (fst (pixel event)) (snd (pixel event))) of
                   Inl e \<Rightarrow> fst ?out = Some e \<and>
                     ax2 (snd ?out) =
                       (if checkbox self then ax2 self else ax2 (init_vertical_plot self))
                 | Inr a \<Rightarrow> fst ?out = None \<and> ax2 (snd ?out) = legend a"
    if on: "on_volume self event" and inv: "Tomographyplot_inv self"
    using onclick_plots_profile [OF inv on] by (simp only: px fst_conv snd_conv)
  have line: "fst ?out = None \<and> ax_lines (ax2 (snd ?out)) \<noteq> [] \<and>
      line_xdata (last (ax_lines (ax2 (snd ?out)))) = flipud ?p \<and>
      length (line_xdata (last (ax_lines (ax2 (snd ?out))))) = shape2 ?a \<and>
      line_label (last (ax_lines (ax2 (snd ?out)))) =
        profile_label (fst (pixel event)) (snd (pixel event))"
    if on: "on_volume self event" and inv: "Tomographyplot_inv self" and odd: "odd (shape2 ?a)"
    using onclick_on_volume [OF inv on odd] by (simp add: px legend_def flipud_def)
  have all: "\<exists>p. getitem_profile ?a (snd (pixel event)) (fst (pixel event)) = Inr p \<and>
             length p = shape2 ?a \<and> p = ?p \<and>
             (Tomographyplot_inv self \<longrightarrow>
                fst ?out \<noteq> Some IndexError \<and>
                (case plot (if checkbox self then ax2 self else ax2 (init_vertical_plot self))
                        (flipud p) (py_range (- height self) (height self + 1))
                        (profile_label (fst (pixel event)) (snd (pixel event))) of
                   Inl e \<Rightarrow> fst ?out = Some e \<and>
                     ax2 (snd ?out) =
                       (if checkbox self then ax2 self else ax2 (init_vertical_plot self))
                 | Inr a \<Rightarrow> fst ?out = None \<and> ax2 (snd ?out) = legend a) \<and>
                (odd (shape2 ?a) \<longrightarrow>
                   fst ?out = None \<and> ax_lines (ax2 (snd ?out)) \<noteq> [] \<and>
                   line_xdata (last (ax_lines (ax2 (snd ?out)))) = flipud p \<and>
                   length (line_xdata (last (ax_lines (ax2 (snd ?out))))) = shape2 ?a \<and>
                   line_label (last (ax_lines (ax2 (snd ?out)))) =
                     profile_label (fst (pixel event)) (snd (pixel event))))"
    if on: "on_volume self event"
  proof (intro exI [of _ ?p] conjI impI)
    show "getitem_profile ?a (snd (pixel event)) (fst (pixel event)) = Inr ?p"
      using on by (rule prof)
    show "length ?p = shape2 ?a" by (rule len)
    show "?p = ?p" ..
  next
    assume inv: "Tomographyplot_inv self"
    show "fst ?out \<noteq> Some IndexError" using on inv by (rule noerr)
    show "case plot (if checkbox self then ax2 self else ax2 (init_vertical_plot self))
                        (flipud ?p) (py_range (- height self) (height self + 1))
                        (profile_label (fst (pixel event)) (snd (pixel event))) of
                   Inl e \<Rightarrow> fst ?out = Some e \<and>
                     ax2 (snd ?out) =
                       (if checkbox self then ax2 self else ax2 (init_vertical_plot self))
                 | Inr a \<Rightarrow> fst ?out = None \<and> ax2 (snd ?out) = legend a"
      using on inv by (rule handed)
  next
    assume inv: "Tomographyplot_inv self" and odd: "odd (shape2 ?a)"
    note l = line [OF on inv odd]
    from l show "fst ?out = None" by blast
    from l show "ax_lines (ax2 (snd ?out)) \<noteq> []" by blast
    from l show "line_xdata (last (ax_lines (ax2 (snd ?out)))) = flipud ?p" by blast
    from l show "length (line_xdata (last (ax_lines (ax2 (snd ?out))))) = shape2 ?a" by blast
    from l show "line_label (last (ax_lines (ax2 (snd ?out)))) =
        profile_label (fst (pixel event)) (snd (pixel event))" by blast
  qed
  from px tr cross all show ?thesis by blast
qed

theorem onclick_truncates_and_takes_profile_witness:
  "inaxes (press (Some Ax1) (17 / 10) (- (3 / 10))) = Some Ax1 \<and>
   pixel (press (Some Ax1) (17 / 10) (- (3 / 10))) = (1, 0) \<and>
   lver (snd (Tomographyplot_onclick (demo_explorer 3) (press (Some Ax1) (17 / 10) (- (3 / 10))))) = 1 \<and>
   lhor (snd (Tomographyplot_onclick (demo_explorer 3) (press (Some Ax1) (17 / 10) (- (3 / 10))))) = 0 \<and>
   on_volume (demo_explorer 3) (press (Some Ax1) (17 / 10) (- (3 / 10))) \<and>
   Tomographyplot_inv (demo_explorer 3) \<and>
   odd (shape2 (capon_bf_abs (demo_explorer 3))) \<and>
   getitem_profile (demo_volume 2 2 3) 0 1 = Inr [10, 11, 12] \<and>
   fst (Tomographyplot_onclick (demo_explorer 3) (press (Some Ax1) (17 / 10) (- (3 / 10)))) = None \<and>
   line_xdata (last (ax_lines (ax2 (snd (Tomographyplot_onclick (demo_explorer 3)
     (press (Some Ax1) (17 / 10) (- (3 / 10)))))))) = [12, 11, 10]"
proof -
  let ?ev = "press (Some Ax1) (17 / 10) (- (3 / 10))" and ?d = "demo_explorer 3"
  have ax: "inaxes ?ev = Some Ax1" by (simp add: press_simps)
  have px: "pixel ?ev = (1, 0)" by (simp add: press_simps py_int_numerals)
  have on: "on_volume ?d ?ev" by (simp add: on_volume_demo py_int_numerals)
  have inv: "Tomographyplot_inv ?d" by (simp add: demo_explorer_facts)
  have odd: "odd (shape2 (capon_bf_abs ?d))"
    by (simp add: demo_explorer_facts demo_volume_shape)
  note th = onclick_truncates_and_takes_profile [OF ax, of ?d]
  from th have "(lver (snd (Tomographyplot_onclick ?d ?ev)),
      lhor (snd (Tomographyplot_onclick ?d ?ev))) = pixel ?ev"
    by blast
  then have cross: "lver (snd (Tomographyplot_onclick ?d ?ev)) = 1"
    "lhor (snd (Tomographyplot_onclick ?d ?ev)) = 0"
    by (simp_all add: px)
  from th on inv odd obtain p where
    g: "getitem_profile (capon_bf_abs ?d) (snd (pixel ?ev)) (fst (pixel ?ev)) = Inr p"
    and p: "p = map (elem3 (capon_bf_abs ?d)
                       (position (shape0 (capon_bf_abs ?d)) (snd (pixel ?ev)))
                       (position (shape1 (capon_bf_abs ?d)) (fst (pixel ?ev))))
                   [0..<shape2 (capon_bf_abs ?d)]"
    and ok: "fst (Tomographyplot_onclick ?d ?ev) = None"
    and x: "line_xdata (last (ax_lines (ax2 (snd (Tomographyplot_onclick ?d ?ev))))) = flipud p"
    by blast
  from p have vals: "p = [10, 11, 12]"
    by (simp add: px demo_explorer_facts demo_volume_def position_def upt_rec)
  from g vals have prof: "getitem_profile (demo_volume 2 2 3) 0 1 = Inr [10, 11, 12]"
    by (simp add: px demo_explorer_facts)
  from x vals have line: "line_xdata (last (ax_lines (ax2 (snd (Tomographyplot_onclick ?d ?ev))))) =
      [12, 11, 10]"
    by (simp add: flipud_def)
  from ax px cross on inv odd prof ok line show ?thesis by blast
qed

theorem onclick_truncates_and_takes_profile_counterexample:
  "inaxes (press (Some Ax1) 5 0) = Some Ax1 \<and>
   pixel (press (Some Ax1) 5 0) = (5, 0) \<and>
   shape (capon_bf_abs (demo_explorer 3)) = (2, 2, 3) \<and>
   getitem_profile (capon_bf_abs (demo_explorer 3)) 0 5 = Inl IndexError \<and>
   Tomographyplot_onclick (demo_explorer 3) (press (Some Ax1) 5 0) =
     (Some IndexError, reset_crosshair (demo_explorer 3) 5 0)"
proof -
  let ?ev = "press (Some Ax1) 5 0" and ?d = "demo_explorer 3"
  have ax: "inaxes ?ev = Some Ax1" by (simp add: press_simps)
  have px: "pixel ?ev = (5, 0)" by (simp add: press_simps py_int_numerals)
  have sh: "shape (capon_bf_abs ?d) = (2, 2, 3)"
    by (simp add: shape_def demo_explorer_facts demo_volume_shape)
  have prof: "getitem_profile (capon_bf_abs ?d) 0 5 = Inl IndexError"
    by (intro getitem_profile_invalid) (simp add: demo_explorer_facts demo_volume_shape)
  have off: "\<not> on_volume ?d ?ev" by (simp add: on_volume_demo py_int_numerals)
  from onclick_off_volume [OF ax off]
  have "Tomographyplot_onclick ?d ?ev = (Some IndexError, reset_crosshair ?d 5 0)"
    by (simp add: press_simps py_int_numerals)
  with ax px sh prof show ?thesis by blast
qed

text \<open>
  C5. Starting from an empty profile panel, on a volume of odd height extent and for presses
  inside the horizontal-slice panel whose pixels index the volume: with stacking enabled,
  \<open>N\<close> presses leave \<open>N\<close> lines, labelled by their pixels in order, and the labels are
  pairwise distinct exactly when the pixels are; with stacking disabled, the panel holds
  exactly one line after each press.
\<close>

theorem clicks_leave_profile_lines:
  assumes inv: "Tomographyplot_inv self"
    and odd: "odd (shape2 (capon_bf_abs self))"
    and on: "\<forall>ev\<in>set evs. on_volume self ev"
    and empty: "ax_lines (ax2 self) = []"
  shows "(checkbox self \<longrightarrow>
            length (ax_lines (ax2 (clicks self evs))) = length evs \<and>
            map line_label (ax_lines (ax2 (clicks self evs))) =
              map (\<lambda>ev. profile_label (fst (pixel ev)) (snd (pixel ev))) evs \<and>
            (distinct (map line_label (ax_lines (ax2 (clicks self evs)))) \<longleftrightarrow>
               distinct (map pixel evs))) \<and>
         (\<not> checkbox self \<longrightarrow>
            (\<forall>k. 0 < k \<and> k \<le> length evs \<longrightarrow>
               length (ax_lines (ax2 (clicks self (take k evs)))) = 1))"
proof (intro conjI impI allI)
  assume cb: "checkbox self"
  have labels: "map line_label (ax_lines (ax2 (clicks self evs))) =
      map (\<lambda>ev. profile_label (fst (pixel ev)) (snd (pixel ev))) evs"
    using clicks_stacked_labels [OF inv odd on cb] empty by simp
  then show "map line_label (ax_lines (ax2 (clicks self evs))) =
      map (\<lambda>ev. profile_label (fst (pixel ev)) (snd (pixel ev))) evs" .
  from labels have "length (map line_label (ax_lines (ax2 (clicks self evs)))) =
      length (map (\<lambda>ev. profile_label (fst (pixel ev)) (snd (pixel ev))) evs)"
    by simp
  then show "length (ax_lines (ax2 (clicks self evs))) = length evs" by simp
  have "map (\<lambda>ev. profile_label (fst (pixel ev)) (snd (pixel ev))) evs =
      map (\<lambda>p. profile_label (fst p) (snd p)) (map pixel evs)"
    by simp
  with labels have "distinct (map line_label (ax_lines (ax2 (clicks self evs)))) =
      distinct (map (\<lambda>p. profile_label (fst p) (snd p)) (map pixel evs))"
    by simp
  also have "\<dots> = distinct (map pixel evs)"
    using inj_on_subset [OF profile_label_pixel_inj subset_UNIV, of "set (map pixel evs)"]
    by (subst distinct_map) simp
  finally show "distinct (map line_label (ax_lines (ax2 (clicks self evs)))) \<longleftrightarrow>
      distinct (map pixel evs)" .
next
  fix k
  assume ncb: "\<not> checkbox self" and k: "0 < k \<and> k \<le> length evs"
  then have ne: "take k evs \<noteq> []" by auto
  have on': "\<forall>ev\<in>set (take k evs). on_volume self ev"
    using on by (auto dest: in_set_takeD)
  have "length (map line_label (ax_lines (ax2 (clicks self (take k evs))))) = 1"
    using clicks_unstacked_labels [OF inv odd on' ncb ne] by simp
  then show "length (ax_lines (ax2 (clicks self (take k evs)))) = 1" by simp
qed


theorem clicks_leave_profile_lines_witness:
  "Tomographyplot_inv (demo_explorer 3) \<and>
   odd (shape2 (capon_bf_abs (demo_explorer 3))) \<and>
   on_volume (demo_explorer 3) (press (Some Ax1) 0 0) \<and>
   on_volume (demo_explorer 3) (press (Some Ax1) (17 / 10) (1 / 5)) \<and>
   pixel (press (Some Ax1) 0 0) \<noteq> pixel (press (Some Ax1) (17 / 10) (1 / 5)) \<and>
   ax_lines (ax2 (demo_explorer 3)) = [] \<and>
   checkbox (demo_explorer 3) \<and>
   length (ax_lines (ax2 (clicks (demo_explorer 3)
     [press (Some Ax1) 0 0, press (Some Ax1) (17 / 10) (1 / 5)]))) = 2 \<and>
   distinct (map line_label (ax_lines (ax2 (clicks (demo_explorer 3)
     [press (Some Ax1) 0 0, press (Some Ax1) (17 / 10) (1 / 5)])))) \<and>
   \<not> checkbox (set_checkbox (demo_explorer 3) False) \<and>
   length (ax_lines (ax2 (clicks (set_checkbox (demo_explorer 3) False)
     [press (Some Ax1) 0 0]))) = 1 \<and>
   length (ax_lines (ax2 (clicks (set_checkbox (demo_explorer 3) False)
     [press (Some Ax1) 0 0, press (Some Ax1) (17 / 10) (1 / 5)]))) = 1"
proof -
  let ?evs = "[press (Some Ax1) 0 0, press (Some Ax1) (17 / 10) (1 / 5)]"
  let ?d = "demo_explorer 3" and ?u = "set_checkbox (demo_explorer 3) False"
  have inv: "Tomographyplot_inv ?d" and inv': "Tomographyplot_inv ?u"
    by (simp_all add: demo_explorer_facts set_checkbox_inv)
  have odd: "odd (shape2 (capon_bf_abs ?d))" and odd': "odd (shape2 (capon_bf_abs ?u))"
    by (simp_all add: demo_explorer_facts set_checkbox_frame demo_volume_shape)
  have on: "\<forall>ev\<in>set ?evs. on_volume ?d ev" and on': "\<forall>ev\<in>set ?evs. on_volume ?u ev"
    by (simp_all add: on_volume_demo py_int_numerals)
  have empty: "ax_lines (ax2 ?d) = []" and empty': "ax_lines (ax2 ?u) = []"
    by (simp_all add: demo_explorer_facts set_checkbox_frame)
  have cb: "checkbox ?d" and ncb: "\<not> checkbox ?u"
    by (simp_all add: demo_explorer_facts set_checkbox_frame)
  have px: "distinct (map pixel ?evs)"
    by (simp add: press_simps py_int_numerals)
  note stack = clicks_leave_profile_lines [OF inv odd on empty]
  from stack cb have "length (ax_lines (ax2 (clicks ?d ?evs))) = length ?evs"
    by blast
  then have two: "length (ax_lines (ax2 (clicks ?d ?evs))) = 2"
    by simp
  from stack cb px have "distinct (map line_label (ax_lines (ax2 (clicks ?d ?evs))))"
    by blast
  with two have stacked: "length (ax_lines (ax2 (clicks ?d ?evs))) = 2 \<and>
      distinct (map line_label (ax_lines (ax2 (clicks ?d ?evs))))"
    by (rule conjI)
  from clicks_leave_profile_lines [OF inv' odd' on' empty'] ncb
  have each: "\<forall>k. 0 < k \<and> k \<le> length ?evs \<longrightarrow>
      length (ax_lines (ax2 (clicks ?u (take k ?evs)))) = 1"
    by blast
  from each [rule_format, of 1] each [rule_format, of 2]
  have unstacked: "length (ax_lines (ax2 (clicks ?u [press (Some Ax1) 0 0]))) = 1 \<and>
      length (ax_lines (ax2 (clicks ?u ?evs))) = 1"
    by simp
  from on have on2: "on_volume ?d (press (Some Ax1) 0 0)"
    "on_volume ?d (press (Some Ax1) (17 / 10) (1 / 5))"
    by simp_all
  from px have px2: "pixel (press (Some Ax1) 0 0) \<noteq> pixel (press (Some Ax1) (17 / 10) (1 / 5))"
    by simp
  from inv odd on2 px2 empty cb stacked ncb unstacked show ?thesis by blast
qed

theorem clicks_leave_profile_lines_counterexample:
  "checkbox (demo_explorer 3) \<and> ax_lines (ax2 (demo_explorer 3)) = [] \<and>
   inaxes (press (Some Ax1) 0 0) = Some Ax1 \<and> inaxes (press (Some Ax1) (2 / 5) (1 / 5)) = Some Ax1 \<and>
   length (ax_lines (ax2 (clicks (demo_explorer 3)
     [press (Some Ax1) 0 0, press (Some Ax1) (2 / 5) (1 / 5)]))) = 2 \<and>
   \<not> distinct (map line_label (ax_lines (ax2 (clicks (demo_explorer 3)
     [press (Some Ax1) 0 0, press (Some Ax1) (2 / 5) (1 / 5)])))) \<and>
   checkbox (demo_explorer 2) \<and> ax_lines (ax2 (demo_explorer 2)) = [] \<and>
   ax_lines (ax2 (clicks (demo_explorer 2) [press (Some Ax1) 0 0])) = [] \<and>
   \<not> checkbox (set_checkbox (demo_explorer 2) False) \<and>
   ax_lines (ax2 (clicks (set_checkbox (demo_explorer 2) False) [press (Some Ax1) 0 0])) = [] \<and>
   inaxes (press (Some Ax1) 5 0) = Some Ax1 \<and>
   ax_lines (ax2 (clicks (demo_explorer 3) [press (Some Ax1) 5 0])) = []"
proof -
  let ?evs = "[press (Some Ax1) 0 0, press (Some Ax1) (2 / 5) (1 / 5)]"
  let ?d = "demo_explorer 3" and ?e = "demo_explorer 2"
  let ?u = "set_checkbox (demo_explorer 2) False"
  have same: "map line_label (ax_lines (ax2 (clicks ?d ?evs))) =
      [profile_label 0 0, profile_label 0 0]"
    using clicks_stacked_labels [of ?d ?evs]
    by (simp add: demo_explorer_facts demo_volume_shape on_volume_demo press_simps py_int_numerals)
  then have "length (map line_label (ax_lines (ax2 (clicks ?d ?evs)))) = 2" by simp
  then have two: "length (ax_lines (ax2 (clicks ?d ?evs))) = 2" by simp
  from same have same': "\<not> distinct (map line_label (ax_lines (ax2 (clicks ?d ?evs))))"
    by simp
  have even: "ax_lines (ax2 (clicks ?e [press (Some Ax1) 0 0])) = []"
    using onclick_even_height [of ?e "press (Some Ax1) 0 0"]
    by (simp add: demo_explorer_facts demo_volume_shape on_volume_demo press_simps
        py_int_numerals reset_crosshair_def)
  have even': "ax_lines (ax2 (clicks ?u [press (Some Ax1) 0 0])) = []"
    using onclick_even_height [of ?u "press (Some Ax1) 0 0"]
    by (simp add: demo_explorer_facts demo_volume_shape on_volume_demo press_simps
        py_int_numerals set_checkbox_inv set_checkbox_frame init_vertical_plot_lines)
  have off: "ax_lines (ax2 (clicks ?d [press (Some Ax1) 5 0])) = []"
    using onclick_off_volume [of "press (Some Ax1) 5 0" ?d]
    by (simp add: demo_explorer_facts on_volume_demo press_simps py_int_numerals
        reset_crosshair_def)
  show ?thesis
    using two same' even even' off
    by (simp add: demo_explorer_facts set_checkbox_frame press_simps)
qed

text \<open>
  C6. With stacking disabled, on a volume of odd height extent, two presses on the same pixel
  of the volume each leave exactly one line on the profile panel, and the panel after the
  second press is the panel after the first.
\<close>

theorem unstacked_press_twice_same_panel:
  assumes inv: "Tomographyplot_inv self"
    and odd: "odd (shape2 (capon_bf_abs self))"
    and ncb: "\<not> checkbox self"
    and on: "on_volume self ev" and on': "on_volume self ev'"
    and same: "pixel ev' = pixel ev"
  shows "length (ax_lines (ax2 (snd (Tomographyplot_onclick self ev)))) = 1 \<and>
         length (ax_lines (ax2 (snd (Tomographyplot_onclick
                   (snd (Tomographyplot_onclick self ev)) ev')))) = 1 \<and>
         ax2 (snd (Tomographyplot_onclick (snd (Tomographyplot_onclick self ev)) ev')) =
           ax2 (snd (Tomographyplot_onclick self ev))"
proof -
  let ?s1 = "snd (Tomographyplot_onclick self ev)"
  let ?s2 = "snd (Tomographyplot_onclick ?s1 ev')"
  have fr: "height ?s1 = height self" "capon_bf_abs ?s1 = capon_bf_abs self"
    "checkbox ?s1 = checkbox self"
    by (simp_all add: onclick_frame)
  have inv1: "Tomographyplot_inv ?s1" using inv by (rule onclick_inv)
  have odd1: "odd (shape2 (capon_bf_abs ?s1))" using odd fr by simp
  have on1: "on_volume ?s1 ev'" using on' fr by (simp add: on_volume_def)
  from same have px: "py_int (xdata ev') = py_int (xdata ev)" "py_int (ydata ev') = py_int (ydata ev)"
    by (simp_all add: pixel_def)
  have panel: "ax2 (init_vertical_plot ?s1) = ax2 (init_vertical_plot self)"
    using init_vertical_plot_panel [OF inv] init_vertical_plot_panel [OF inv1] fr by simp
  have first: "ax2 ?s1 = legend ((ax2 (init_vertical_plot self))
         \<lparr>ax_lines := [\<lparr>line_xdata = flipud (map (elem3 (capon_bf_abs self)
                   (position (shape0 (capon_bf_abs self)) (py_int (ydata ev)))
                   (position (shape1 (capon_bf_abs self)) (py_int (xdata ev))))
                   [0..<shape2 (capon_bf_abs self)]),
               line_ydata = py_range (- height self) (height self + 1),
               line_label = profile_label (py_int (xdata ev)) (py_int (ydata ev))\<rparr>]\<rparr>)"
    using onclick_on_volume [OF inv on odd] ncb by simp
  have second: "ax2 ?s2 = legend ((ax2 (init_vertical_plot self))
         \<lparr>ax_lines := [\<lparr>line_xdata = flipud (map (elem3 (capon_bf_abs self)
                   (position (shape0 (capon_bf_abs self)) (py_int (ydata ev)))
                   (position (shape1 (capon_bf_abs self)) (py_int (xdata ev))))
                   [0..<shape2 (capon_bf_abs self)]),
               line_ydata = py_range (- height self) (height self + 1),
               line_label = profile_label (py_int (xdata ev)) (py_int (ydata ev))\<rparr>]\<rparr>)"
    using onclick_on_volume [OF inv1 on1 odd1] ncb by (simp add: fr px panel)
  have one: "length (ax_lines (ax2 ?s1)) = 1"
    by (simp add: first legend_def)
  from first second have eq: "ax2 ?s2 = ax2 ?s1" by simp
  with one have "length (ax_lines (ax2 ?s2)) = 1" by simp
  with one eq show ?thesis by blast
qed

theorem unstacked_press_twice_same_panel_witness:
  "Tomographyplot_inv (set_checkbox (demo_explorer 3) False) \<and>
   odd (shape2 (capon_bf_abs (set_checkbox (demo_explorer 3) False))) \<and>
   \<not> checkbox (set_checkbox (demo_explorer 3) False) \<and>
   on_volume (set_checkbox (demo_explorer 3) False) (press (Some Ax1) 1 0) \<and>
   on_volume (set_checkbox (demo_explorer 3) False) (press (Some Ax1) (17 / 10) (1 / 5)) \<and>
   pixel (press (Some Ax1) (17 / 10) (1 / 5)) = pixel (press (Some Ax1) 1 0) \<and>
   length (ax_lines (ax2 (snd (Tomographyplot_onclick
     (set_checkbox (demo_explorer 3) False) (press (Some Ax1) 1 0))))) = 1 \<and>
   length (ax_lines (ax2 (snd (Tomographyplot_onclick
     (snd (Tomographyplot_onclick (set_checkbox (demo_explorer 3) False) (press (Some Ax1) 1 0)))
     (press (Some Ax1) (17 / 10) (1 / 5)))))) = 1 \<and>
   ax2 (snd (Tomographyplot_onclick
     (snd (Tomographyplot_onclick (set_checkbox (demo_explorer 3) False) (press (Some Ax1) 1 0)))
     (press (Some Ax1) (17 / 10) (1 / 5)))) =
   ax2 (snd (Tomographyplot_onclick (set_checkbox (demo_explorer 3) False) (press (Some Ax1) 1 0)))"
proof -
  let ?u = "set_checkbox (demo_explorer 3) False" and ?ev = "press (Some Ax1) 1 0"
  let ?ev' = "press (Some Ax1) (17 / 10) (1 / 5)"
  have inv: "Tomographyplot_inv ?u"
    by (simp add: demo_explorer_facts set_checkbox_inv)
  have odd: "odd (shape2 (capon_bf_abs ?u))"
    by (simp add: demo_explorer_facts set_checkbox_frame demo_volume_shape)
  have ncb: "\<not> checkbox ?u"
    by (simp add: set_checkbox_frame)
  have on: "on_volume ?u ?ev"
    by (simp add: on_volume_demo py_int_numerals)
  have on': "on_volume ?u ?ev'"
    by (simp add: on_volume_demo py_int_numerals)
  have same: "pixel ?ev' = pixel ?ev"
    by (simp add: press_simps py_int_numerals)
  from inv odd ncb on on' same unstacked_press_twice_same_panel [OF inv odd ncb on on' same]
  show ?thesis by blast
qed

theorem unstacked_press_twice_same_panel_counterexample:
  "\<not> checkbox (set_checkbox (demo_explorer 2) False) \<and>
   inaxes (press (Some Ax1) 0 0) = Some Ax1 \<and>
   fst (Tomographyplot_onclick (set_checkbox (demo_explorer 2) False) (press (Some Ax1) 0 0)) =
     Some ValueError \<and>
   length (ax_lines (ax2 (snd (Tomographyplot_onclick
     (set_checkbox (demo_explorer 2) False) (press (Some Ax1) 0 0))))) = 0 \<and>
   length (ax_lines (ax2 (snd (Tomographyplot_onclick
     (snd (Tomographyplot_onclick (set_checkbox (demo_explorer 2) False) (press (Some Ax1) 0 0)))
     (press (Some Ax1) 0 0))))) = 0"
proof -
  let ?u = "set_checkbox (demo_explorer 2) False" and ?ev = "press (Some Ax1) 0 0"
  let ?s1 = "snd (Tomographyplot_onclick ?u ?ev)"
  have inv: "Tomographyplot_inv ?u"
    by (simp add: demo_explorer_facts set_checkbox_inv)
  have even: "even (shape2 (capon_bf_abs ?u))"
    by (simp add: demo_explorer_facts set_checkbox_frame demo_volume_shape)
  have ncb: "\<not> checkbox ?u"
    by (simp add: set_checkbox_frame)
  have on: "on_volume ?u ?ev"
    by (simp add: on_volume_demo py_int_numerals)
  have first: "Tomographyplot_onclick ?u ?ev =
      (Some ValueError, init_vertical_plot (reset_crosshair ?u (py_int (xdata ?ev)) (py_int (ydata ?ev))))"
    using onclick_even_height [OF inv on even] ncb by simp
  have fr: "capon_bf_abs ?s1 = capon_bf_abs ?u" "checkbox ?s1 = checkbox ?u"
    by (simp_all add: onclick_frame)
  have inv1: "Tomographyplot_inv ?s1" using inv by (rule onclick_inv)
  have even1: "even (shape2 (capon_bf_abs ?s1))" using even fr by simp
  have on1: "on_volume ?s1 ?ev" using on fr by (simp add: on_volume_def)
  have second: "Tomographyplot_onclick ?s1 ?ev =
      (Some ValueError, init_vertical_plot (reset_crosshair ?s1 (py_int (xdata ?ev)) (py_int (ydata ?ev))))"
    using onclick_even_height [OF inv1 on1 even1] ncb fr by simp
  have l1: "length (ax_lines (ax2 ?s1)) = 0"
    by (simp only: first snd_conv init_vertical_plot_lines list.size)
  have l2: "length (ax_lines (ax2 (snd (Tomographyplot_onclick ?s1 ?ev)))) = 0"
    by (simp only: second snd_conv init_vertical_plot_lines list.size)
  have e: "fst (Tomographyplot_onclick ?u ?ev) = Some ValueError"
    by (simp only: first fst_conv)
  have ax: "inaxes ?ev = Some Ax1" by (simp add: press_simps)
  from ncb ax e l1 l2 show ?thesis by blast
qed

text \<open>
  C7. Whatever the component's state, the clear action \<open>init_vertical_plot\<close> leaves the
  profile panel without lines, with the title, the two axis labels and the y-limits
  \<open>[-H, H]\<close> that the constructor gave it; in a state the handlers can produce the whole
  panel is again the one of the freshly constructed component.
\<close>

theorem clear_restores_profile_panel:
  "ax_lines (ax2 (init_vertical_plot self)) = [] \<and>
   ax_title (ax2 (init_vertical_plot self)) = ''vertical point profiles'' \<and>
   ax_xlabel (ax2 (init_vertical_plot self)) = ''reflectivity'' \<and>
   ax_ylabel (ax2 (init_vertical_plot self)) = ''height [m]'' \<and>
   ax_ylim (ax2 (init_vertical_plot self)) = Some (- height self, height self) \<and>
   (Tomographyplot_inv self \<longrightarrow>
      (\<forall>gui gui' self0.
         Tomographyplot_init gui (capon_bf_abs self) (caponnorm self) = (gui', Inr self0) \<longrightarrow>
         ax2 (init_vertical_plot self) = ax2 self0))"
proof -
  have fields: "ax_lines (ax2 (init_vertical_plot self)) = [] \<and>
      ax_title (ax2 (init_vertical_plot self)) = ''vertical point profiles'' \<and>
      ax_xlabel (ax2 (init_vertical_plot self)) = ''reflectivity'' \<and>
      ax_ylabel (ax2 (init_vertical_plot self)) = ''height [m]'' \<and>
      ax_ylim (ax2 (init_vertical_plot self)) = Some (- height self, height self)"
    by (simp add: init_vertical_plot_def Let_def cla_def subplot_def)
  have whole: "ax2 (init_vertical_plot self) = ax2 self0"
    if inv: "Tomographyplot_inv self"
      and init: "Tomographyplot_init gui (capon_bf_abs self) (caponnorm self) = (gui', Inr self0)"
    for gui gui' self0
  proof -
    from init have "shape (caponnorm self) = shape (capon_bf_abs self)"
      by (rule init_Inr_shapes)
    from init_facts [OF this, of gui] init
    have "ax2 self0 = subplot\<lparr>ax_ylabel := ''height [m]'', ax_xlabel := ''reflectivity'',
             ax_title := ''vertical point profiles'',
             ax_ylim := Some (- int (shape2 (capon_bf_abs self) div 2),
                              int (shape2 (capon_bf_abs self) div 2))\<rparr>"
      by auto
    with init_vertical_plot_panel [OF inv] inv_height [OF inv] show ?thesis by simp
  qed
  from fields whole show ?thesis by blast
qed

theorem clear_restores_profile_panel_witness:
  "Tomographyplot_inv (clicks (demo_explorer 3) [press (Some Ax1) 0 0, press (Some Ax1) 1 1]) \<and>
   length (ax_lines (ax2 (clicks (demo_explorer 3)
      [press (Some Ax1) 0 0, press (Some Ax1) 1 1]))) = 2 \<and>
   snd (Tomographyplot_init [] (demo_volume 2 2 3) (demo_volume 2 2 3)) = Inr (demo_explorer 3) \<and>
   ax_lines (ax2 (init_vertical_plot (clicks (demo_explorer 3)
      [press (Some Ax1) 0 0, press (Some Ax1) 1 1]))) = [] \<and>
   ax2 (init_vertical_plot (clicks (demo_explorer 3)
      [press (Some Ax1) 0 0, press (Some Ax1) 1 1])) = ax2 (demo_explorer 3)"
proof -
  let ?evs = "[press (Some Ax1) 0 0, press (Some Ax1) 1 1]"
  let ?s = "clicks (demo_explorer 3) ?evs"
  let ?v = "demo_volume 2 2 3"
  have inv: "Tomographyplot_inv ?s"
    by (intro clicks_inv) (simp add: demo_explorer_facts)
  have "map line_label (ax_lines (ax2 ?s)) =
      map (\<lambda>ev. profile_label (fst (pixel ev)) (snd (pixel ev))) ?evs"
    using clicks_stacked_labels [of "demo_explorer 3" ?evs]
    by (simp add: demo_explorer_facts demo_volume_shape on_volume_demo py_int_numerals)
  then have "length (map line_label (ax_lines (ax2 ?s))) = 2" by simp
  then have two: "length (ax_lines (ax2 ?s)) = 2" by simp
  have vols: "capon_bf_abs ?s = ?v" "caponnorm ?s = ?v"
    using clicks_frame [of "demo_explorer 3" ?evs] by (simp_all add: demo_explorer_facts)
  obtain gui' self0 where init0: "Tomographyplot_init [] ?v ?v = (gui', Inr self0)"
    using init_facts [of ?v ?v "[]"] by blast
  then have demo: "self0 = demo_explorer 3"
    by (simp add: demo_explorer_def)
  have init: "Tomographyplot_init [] (capon_bf_abs ?s) (caponnorm ?s) =
      (gui', Inr (demo_explorer 3))"
    unfolding vols using init0 demo by simp
  note clear = clear_restores_profile_panel [of ?s]
  from clear have none: "ax_lines (ax2 (init_vertical_plot ?s)) = []" by blast
  from clear inv init have same: "ax2 (init_vertical_plot ?s) = ax2 (demo_explorer 3)" by blast
  from init0 demo have snd: "snd (Tomographyplot_init [] ?v ?v) = Inr (demo_explorer 3)" by simp
  from inv two snd none same show ?thesis by blast
qed

text \<open>
  C8. The constructor gives the range-slice and azimuth-slice panels five ticks at the pixel
  positions \<open>{0, H/2, H, 1.5H, 2H}\<close>, with the integer labels \<open>-H\<close>, \<open>0\<close>, \<open>H\<close> at
  \<open>0\<close>, \<open>H\<close>, \<open>2H\<close> and \<open>H // 2\<close> at \<open>1.5H\<close>. For even \<open>H\<close> the labels are exactly
  \<open>{-H, -H/2, 0, H/2, H}\<close> and symmetric. The ticks are computed once: in whatever state the
  component is, no handler (\<open>onclick\<close>, \<open>onslide\<close>, the clear action) and no sequence of
  presses changes the ticks or tick labels of the two panels.
\<close>

theorem init_tick_scheme:
  assumes "shape (caponnorm' :: 'a ndarray3) = shape (capon_bf_abs' :: 'a ndarray3)"
  shows "(\<exists>gui' self. Tomographyplot_init gui capon_bf_abs' caponnorm' = (gui', Inr self) \<and>
     height self = int (shape2 capon_bf_abs' div 2) \<and>
     ax_yticks (ax3 self) = Some (spec_tick_positions (real_of_int (height self))) \<and>
     ax_yticks (ax4 self) = Some (spec_tick_positions (real_of_int (height self))) \<and>
     ax_yticklabels (ax4 self) = ax_yticklabels (ax3 self) \<and>
     (\<exists>l. ax_yticklabels (ax3 self) = Some [- height self, l, 0, height self div 2, height self]) \<and>
     (even (height self) \<longrightarrow>
        (\<exists>ls. ax_yticklabels (ax3 self) = Some ls \<and>
              map real_of_int ls = spec_tick_labels (real_of_int (height self)) \<and>
              symmetric_labels ls))) \<and>
     (\<forall>state :: 'a Tomographyplot.
        (\<forall>ev. ax_yticks (ax3 (snd (Tomographyplot_onclick state ev))) = ax_yticks (ax3 state) \<and>
           ax_yticklabels (ax3 (snd (Tomographyplot_onclick state ev))) =
             ax_yticklabels (ax3 state) \<and>
           ax_yticks (ax4 (snd (Tomographyplot_onclick state ev))) = ax_yticks (ax4 state) \<and>
           ax_yticklabels (ax4 (snd (Tomographyplot_onclick state ev))) =
             ax_yticklabels (ax4 state)) \<and>
        (\<forall>h. ax3 (snd (Tomographyplot_onslide state h)) = ax3 state \<and>
             ax4 (snd (Tomographyplot_onslide state h)) = ax4 state) \<and>
        ax3 (init_vertical_plot state) = ax3 state \<and>
        ax4 (init_vertical_plot state) = ax4 state \<and>
        (\<forall>evs. ax_yticks (ax3 (clicks state evs)) = ax_yticks (ax3 state) \<and>
           ax_yticklabels (ax3 (clicks state evs)) = ax_yticklabels (ax3 state) \<and>
           ax_yticks (ax4 (clicks state evs)) = ax_yticks (ax4 state) \<and>
           ax_yticklabels (ax4 (clicks state evs)) = ax_yticklabels (ax4 state)))"
proof -
  let ?H = "int (shape2 capon_bf_abs' div 2)"
  from init_facts [OF assms, of gui] obtain gui' self where
    init: "Tomographyplot_init gui capon_bf_abs' caponnorm' = (gui', Inr self)"
    and H: "height self = ?H"
    and t3: "ax_yticks (ax3 self) = Some (ytick_pos ?H)"
    and l3: "ax_yticklabels (ax3 self) = Some (ytick_lab ?H)"
    and t4: "ax_yticks (ax4 self) = Some (ytick_pos ?H)"
    and l4: "ax_yticklabels (ax4 self) = Some (ytick_lab ?H)"
    by blast
  have pos: "ax_yticks (ax3 self) = Some (spec_tick_positions (real_of_int (height self)))"
    "ax_yticks (ax4 self) = Some (spec_tick_positions (real_of_int (height self)))"
    by (simp_all only: t3 t4 H ytick_pos_spec)
  have lab: "ax_yticklabels (ax4 self) = ax_yticklabels (ax3 self)"
    by (simp only: l3 l4)
  have part: "\<exists>l. ax_yticklabels (ax3 self) = Some [- height self, l, 0, height self div 2, height self]"
    by (simp add: l3 H ytick_lab_def)
  have ev: "\<exists>ls. ax_yticklabels (ax3 self) = Some ls \<and>
      map real_of_int ls = spec_tick_labels (real_of_int (height self)) \<and> symmetric_labels ls"
    if "even (height self)"
    using ytick_lab_even [of ?H] that by (simp only: l3 H) blast
  from init H pos lab part ev have built:
    "\<exists>gui' self. Tomographyplot_init gui capon_bf_abs' caponnorm' = (gui', Inr self) \<and>
     height self = int (shape2 capon_bf_abs' div 2) \<and>
     ax_yticks (ax3 self) = Some (spec_tick_positions (real_of_int (height self))) \<and>
     ax_yticks (ax4 self) = Some (spec_tick_positions (real_of_int (height self))) \<and>
     ax_yticklabels (ax4 self) = ax_yticklabels (ax3 self) \<and>
     (\<exists>l. ax_yticklabels (ax3 self) = Some [- height self, l, 0, height self div 2, height self]) \<and>
     (even (height self) \<longrightarrow>
        (\<exists>ls. ax_yticklabels (ax3 self) = Some ls \<and>
              map real_of_int ls = spec_tick_labels (real_of_int (height self)) \<and>
              symmetric_labels ls))"
    by blast
  have kept: "ax_yticks (ax3 (snd (Tomographyplot_onclick state ev))) = ax_yticks (ax3 state) \<and>
           ax_yticklabels (ax3 (snd (Tomographyplot_onclick state ev))) =
             ax_yticklabels (ax3 state) \<and>
           ax_yticks (ax4 (snd (Tomographyplot_onclick state ev))) = ax_yticks (ax4 state) \<and>
           ax_yticklabels (ax4 (snd (Tomographyplot_onclick state ev))) =
             ax_yticklabels (ax4 state)"
    for state :: "'a Tomographyplot" and ev
    by (simp only: onclick_ticks)
  have slide: "ax3 (snd (Tomographyplot_onslide state h)) = ax3 state \<and>
          ax4 (snd (Tomographyplot_onslide state h)) = ax4 state"
    for state :: "'a Tomographyplot" and h
    by (simp add: onslide_frame)
  have clear: "ax3 (init_vertical_plot state) = ax3 state \<and>
      ax4 (init_vertical_plot state) = ax4 state"
    for state :: "'a Tomographyplot"
    by (simp add: init_vertical_plot_frame)
  have seq: "ax_yticks (ax3 (clicks state evs)) = ax_yticks (ax3 state) \<and>
           ax_yticklabels (ax3 (clicks state evs)) = ax_yticklabels (ax3 state) \<and>
           ax_yticks (ax4 (clicks state evs)) = ax_yticks (ax4 state) \<and>
           ax_yticklabels (ax4 (clicks state evs)) = ax_yticklabels (ax4 state)"
    for state :: "'a Tomographyplot" and evs
    by (rule clicks_ticks)
  from built kept slide clear seq show ?thesis by blast
qed

theorem init_tick_scheme_witness:
  "shape (demo_volume 2 2 9) = shape (demo_volume 2 2 9) \<and>
   height (demo_explorer 9) = 4 \<and> even (height (demo_explorer 9)) \<and>
   ax_yticks (ax3 (demo_explorer 9)) = Some [0, 2, 4, 6, 8] \<and>
   ax_yticklabels (ax3 (demo_explorer 9)) = Some [- 4, - 2, 0, 2, 4] \<and>
   symmetric_labels [- 4, - 2, 0, 2, 4] \<and>
   ax_yticks (ax3 (snd (Tomographyplot_onclick
     (snd (Tomographyplot_onclick (demo_explorer 9) (press (Some Ax1) 0 0)))
     (press (Some Ax1) 1 1)))) = Some [0, 2, 4, 6, 8] \<and>
   ax_yticklabels (ax3 (snd (Tomographyplot_onclick
     (snd (Tomographyplot_onclick (demo_explorer 9) (press (Some Ax1) 0 0)))
     (press (Some Ax1) 1 1)))) = Some [- 4, - 2, 0, 2, 4]"
proof -
  let ?v = "demo_volume 2 2 9"
  let ?s1 = "snd (Tomographyplot_onclick (demo_explorer 9) (press (Some Ax1) 0 0))"
  let ?s2 = "snd (Tomographyplot_onclick ?s1 (press (Some Ax1) 1 1))"
  have sh: "shape ?v = shape ?v" ..
  note th = init_tick_scheme [OF sh, where gui = "[]"]
  from th obtain gui' self where
    init: "Tomographyplot_init [] ?v ?v = (gui', Inr self)"
    and H: "height self = int (shape2 ?v div 2)"
    and pos: "ax_yticks (ax3 self) = Some (spec_tick_positions (real_of_int (height self)))"
    and part: "\<exists>l. ax_yticklabels (ax3 self) = Some [- height self, l, 0, height self div 2, height self]"
    and ev: "even (height self) \<longrightarrow>
        (\<exists>ls. ax_yticklabels (ax3 self) = Some ls \<and>
              map real_of_int ls = spec_tick_labels (real_of_int (height self)) \<and>
              symmetric_labels ls)"
    by blast
  from th have kept: "ax_yticks (ax3 (snd (Tomographyplot_onclick state e))) = ax_yticks (ax3 state)"
    "ax_yticklabels (ax3 (snd (Tomographyplot_onclick state e))) = ax_yticklabels (ax3 state)"
    for state :: "nat Tomographyplot" and e
    by blast+
  from init have self: "self = demo_explorer 9" by (simp add: demo_explorer_def)
  from H have H4: "height self = 4" by (simp add: demo_volume_shape)
  then have even: "even (height self)" by simp
  from pos H4 have ticks: "ax_yticks (ax3 self) = Some [0, 2, 4, 6, 8]"
    by (simp add: spec_tick_positions_def)
  from ev even obtain ls where ls: "ax_yticklabels (ax3 self) = Some ls"
    and vals: "map real_of_int ls = spec_tick_labels (real_of_int (height self))"
    and sym: "symmetric_labels ls"
    by blast
  from part ls H4 obtain l where l: "ls = [- 4, l, 0, 2, 4]" by auto
  with vals H4 have "real_of_int l = - 2" by (simp add: spec_tick_labels_def)
  then have "l = - 2" by linarith
  with l have lsv: "ls = [- 4, - 2, 0, 2, 4]" by simp
  have t2: "ax_yticks (ax3 ?s2) = ax_yticks (ax3 (demo_explorer 9))"
    by (simp only: kept)
  have l2: "ax_yticklabels (ax3 ?s2) = ax_yticklabels (ax3 (demo_explorer 9))"
    by (simp only: kept)
  from lsv ls sym H4 even ticks sh t2 l2 show ?thesis
    unfolding self by simp
qed

theorem init_tick_scheme_counterexample:
  "shape (demo_volume 2 2 11) = shape (demo_volume 2 2 11) \<and>
   height (demo_explorer 11) = 5 \<and>
   ax_yticklabels (ax3 (demo_explorer 11)) = Some [- 5, - 3, 0, 2, 5] \<and>
   ax_yticklabels (ax4 (demo_explorer 11)) = Some [- 5, - 3, 0, 2, 5] \<and>
   map real_of_int [- 5, - 3, 0, 2, 5] \<noteq> spec_tick_labels 5 \<and>
   \<not> symmetric_labels [- 5, - 3, 0, 2, 5]"
proof -
  let ?v = "demo_volume 2 2 11"
  from init_facts [of ?v ?v "[]"] obtain gui' self where
    init: "Tomographyplot_init [] ?v ?v = (gui', Inr self)"
    and H: "height self = int (shape2 ?v div 2)"
    and l3: "ax_yticklabels (ax3 self) = Some (ytick_lab (int (shape2 ?v div 2)))"
    and l4: "ax_yticklabels (ax4 self) = Some (ytick_lab (int (shape2 ?v div 2)))"
    by blast
  from init have self: "self = demo_explorer 11" by (simp add: demo_explorer_def)
  have five: "int (shape2 ?v div 2) = 5" by (simp add: demo_volume_shape)
  have "map real_of_int [- 5, - 3, 0, 2, 5] \<noteq> spec_tick_labels 5"
    by (simp add: spec_tick_labels_def)
  moreover have "\<not> symmetric_labels [- 5, - 3, 0, 2, 5]"
    by (simp add: symmetric_labels_def)
  ultimately show ?thesis
    using H l3 l4 unfolding self five ytick_lab_5 by simp
qed

text \<open>
  C9. A pointer press that is not inside the horizontal-slice panel changes nothing:
  \<open>onclick\<close> returns without an exception and leaves the whole component, so the
  cross-hair, the lines of the profile panel and the range and azimuth panels, as it was.
\<close>

theorem onclick_outside_panel_is_noop:
  assumes "inaxes event \<noteq> Some Ax1"
  shows "Tomographyplot_onclick self event = (None, self) \<and>
         lver (snd (Tomographyplot_onclick self event)) = lver self \<and>
         lhor (snd (Tomographyplot_onclick self event)) = lhor self \<and>
         ax_lines (ax2 (snd (Tomographyplot_onclick self event))) = ax_lines (ax2 self) \<and>
         ax3 (snd (Tomographyplot_onclick self event)) = ax3 self \<and>
         ax4 (snd (Tomographyplot_onclick self event)) = ax4 self"
  using assms by (simp add: Tomographyplot_onclick_def)

theorem onclick_outside_panel_is_noop_witness:
  "inaxes (press (Some Ax3) 1 1) \<noteq> Some Ax1 \<and>
   Tomographyplot_onclick (demo_explorer 3) (press (Some Ax3) 1 1) = (None, demo_explorer 3) \<and>
   inaxes (press None 0 0) \<noteq> Some Ax1 \<and>
   Tomographyplot_onclick (demo_explorer 3) (press None 0 0) = (None, demo_explorer 3)"
proof -
  have h3: "inaxes (press (Some Ax3) 1 1) \<noteq> Some Ax1"
    and h0: "inaxes (press None 0 0) \<noteq> Some Ax1"
    by (simp_all add: press_def)
  from onclick_outside_panel_is_noop [OF h3, of "demo_explorer 3"]
       onclick_outside_panel_is_noop [OF h0, of "demo_explorer 3"] h3 h0
  show ?thesis by blast
qed

text \<open>
  C10. On a volume of even height extent the slider's minimum \<open>-H\<close> gives the index
  \<open>H - (-H) = 2H = shape[2]\<close>, which is out of bounds: \<open>onslide\<close> raises \<open>IndexError\<close> there
  and shows no slice. Every value of the slider indexes a slice exactly when the height extent
  is odd.
\<close>

theorem slider_minimum_in_bounds_iff_odd:
  assumes inv: "Tomographyplot_inv self"
  shows "(even (shape2 (caponnorm self)) \<longrightarrow>
            height self - slider_min (slider self) = int (shape2 (caponnorm self)) \<and>
            getitem_frame (caponnorm self) (height self - slider_min (slider self)) =
              Inl IndexError \<and>
            Tomographyplot_onslide self (slider_min (slider self)) = (Some IndexError, self)) \<and>
         ((\<forall>h\<in>{slider_min (slider self) .. slider_max (slider self)}.
              \<exists>slice. getitem_frame (caponnorm self) (height self - h) = Inr slice) \<longleftrightarrow>
          odd (shape2 (caponnorm self)))"
proof -
  let ?n = "shape2 (caponnorm self)" and ?H = "height self"
  from inv_slider [OF inv] have sl: "slider_min (slider self) = - ?H" "slider_max (slider self) = ?H"
    by simp_all
  have H0: "0 \<le> ?H" using inv_height [OF inv] by simp
  have even_case: "?H - (- ?H) = int ?n \<and>
      getitem_frame (caponnorm self) (?H - (- ?H)) = Inl IndexError \<and>
      Tomographyplot_onslide self (- ?H) = (Some IndexError, self)" if ev: "even ?n"
  proof -
    from slider_span [OF inv] ev have span: "?H - (- ?H) = int ?n" by simp
    then have "getitem_frame (caponnorm self) (?H - (- ?H)) = Inl IndexError"
      by (simp add: getitem_frame_invalid)
    moreover have "Tomographyplot_onslide self (- ?H) = (Some IndexError, self)"
      using span by (intro onslide_invalid [OF refl]) simp
    ultimately show ?thesis using span by blast
  qed
  have odd_case: "\<exists>slice. getitem_frame (caponnorm self) (?H - h) = Inr slice"
    if od: "odd ?n" and h: "h \<in> {- ?H .. ?H}" for h
  proof -
    from slider_span [OF inv] od have "?H - (- ?H) = int ?n - 1" by simp
    with h have "0 \<le> ?H - h" "?H - h < int ?n" by auto
    then show ?thesis by (simp add: getitem_frame_valid)
  qed
  have all_odd: "odd ?n"
    if all: "\<forall>h\<in>{- ?H .. ?H}. \<exists>slice. getitem_frame (caponnorm self) (?H - h) = Inr slice"
  proof (rule ccontr)
    assume "\<not> odd ?n"
    then have "getitem_frame (caponnorm self) (?H - (- ?H)) = Inl IndexError"
      using even_case by blast
    moreover from H0 have "- ?H \<in> {- ?H .. ?H}" by simp
    ultimately show False using all by fastforce
  qed
  from even_case odd_case all_odd show ?thesis
    unfolding sl by blast
qed

theorem slider_minimum_in_bounds_iff_odd_witness:
  "Tomographyplot_inv (demo_explorer 2) \<and>
   even (shape2 (caponnorm (demo_explorer 2))) \<and>
   slider_min (slider (demo_explorer 2)) = - 1 \<and>
   height (demo_explorer 2) - slider_min (slider (demo_explorer 2)) = 2 \<and>
   Tomographyplot_onslide (demo_explorer 2) (- 1) = (Some IndexError, demo_explorer 2) \<and>
   Tomographyplot_inv (demo_explorer 3) \<and>
   odd (shape2 (caponnorm (demo_explorer 3))) \<and>
   slider_min (slider (demo_explorer 3)) = - 1 \<and>
   slider_max (slider (demo_explorer 3)) = 1 \<and>
   getitem_frame (caponnorm (demo_explorer 3)) (height (demo_explorer 3) - (- 1)) =
     Inr (frame (demo_volume 2 2 3) 2) \<and>
   getitem_frame (caponnorm (demo_explorer 3)) (height (demo_explorer 3) - 0) =
     Inr (frame (demo_volume 2 2 3) 1) \<and>
   getitem_frame (caponnorm (demo_explorer 3)) (height (demo_explorer 3) - 1) =
     Inr (frame (demo_volume 2 2 3) 0)"
proof -
  let ?e = "demo_explorer 2" and ?d = "demo_explorer 3"
  have inv2: "Tomographyplot_inv ?e" and inv3: "Tomographyplot_inv ?d"
    by (simp_all add: demo_explorer_facts)
  have ev: "even (shape2 (caponnorm ?e))" and od: "odd (shape2 (caponnorm ?d))"
    by (simp_all add: demo_explorer_facts demo_volume_shape)
  have mn: "slider_min (slider ?e) = - 1"
    using inv_slider [OF inv2] by (simp add: demo_explorer_facts)
  note two = slider_minimum_in_bounds_iff_odd [OF inv2]
  note three = slider_minimum_in_bounds_iff_odd [OF inv3]
  from two ev have "height ?e - slider_min (slider ?e) = int (shape2 (caponnorm ?e))"
    by blast
  then have span: "height ?e - slider_min (slider ?e) = 2"
    by (simp add: demo_explorer_facts demo_volume_shape)
  from two ev have "Tomographyplot_onslide ?e (slider_min (slider ?e)) = (Some IndexError, ?e)"
    by blast
  then have err: "Tomographyplot_onslide ?e (- 1) = (Some IndexError, ?e)"
    by (simp only: mn)
  from three od have all: "\<forall>h\<in>{slider_min (slider ?d) .. slider_max (slider ?d)}.
      \<exists>slice. getitem_frame (caponnorm ?d) (height ?d - h) = Inr slice"
    by blast
  have bounds: "slider_min (slider ?d) = - 1" "slider_max (slider ?d) = 1"
    using inv_slider [OF inv3] by (simp_all add: demo_explorer_facts)
  have slices: "getitem_frame (caponnorm ?d) (height ?d - h) =
      Inr (frame (demo_volume 2 2 3) (nat (1 - h)))" if "h \<in> {- 1 .. 1}" for h
  proof -
    from all that obtain slice where
      "getitem_frame (caponnorm ?d) (height ?d - h) = Inr slice"
      unfolding bounds by blast
    moreover from that have "0 \<le> 1 - h" "1 - h < 3" by simp_all
    then have "getitem_frame (caponnorm ?d) (height ?d - h) =
        Inr (frame (caponnorm ?d) (nat (1 - h)))"
      by (simp add: getitem_frame_valid demo_explorer_facts demo_volume_shape)
    ultimately show ?thesis by (simp add: demo_explorer_facts)
  qed
  from slices [of "- 1"] slices [of 0] slices [of 1]
  have three_slices:
    "getitem_frame (caponnorm ?d) (height ?d - (- 1)) = Inr (frame (demo_volume 2 2 3) 2)"
    "getitem_frame (caponnorm ?d) (height ?d - 0) = Inr (frame (demo_volume 2 2 3) 1)"
    "getitem_frame (caponnorm ?d) (height ?d - 1) = Inr (frame (demo_volume 2 2 3) 0)"
    by simp_all
  from inv2 ev mn span err inv3 od bounds three_slices show ?thesis by blast
qed
end
